theory Spec2Isabelle
  imports Complex_Main "HOL-Library.Sublist"
begin

section \<open>Python values used by the services\<close>

text \<open>
  The services are Python. Integers are unbounded (\<open>int\<close>), strings are character
  lists, floats are idealised as \<open>real\<close> numbers (every property below is about
  order, clamping and the shape of a formula, not about rounding error), and an
  exception is a value of the type \<open>exn\<close> carried on the left of a sum.
\<close>

datatype exn = TypeError | ValueError | ZeroDivisionError | UpstreamError | CacheError | DatabaseError

text \<open>
  Python's \<open>xs[lo:hi]\<close>: a negative bound counts from the end, and both bounds are
  clipped to the list.
\<close>

definition slice_bound :: "nat \<Rightarrow> int \<Rightarrow> nat" where
  "slice_bound n i = (if i < 0 then nat (max (i + int n) 0) else min (nat i) n)"

definition py_slice :: "'a list \<Rightarrow> int \<Rightarrow> int \<Rightarrow> 'a list" where
  "py_slice xs lo hi =
     (let a = slice_bound (length xs) lo; b = slice_bound (length xs) hi
      in take (b - a) (drop a xs))"

text \<open>
  Whitespace as \<open>str.strip()\<close> and the regular expression \<open>\s\<close> see it on
  ASCII text: tab, line feed, vertical tab, form feed, carriage return, the four
  separators 28 to 31, and space.
\<close>

definition is_space :: "char \<Rightarrow> bool" where
  "is_space c = (let k = (of_char c :: nat) in (9 \<le> k \<and> k \<le> 13) \<or> (28 \<le> k \<and> k \<le> 32))"

definition strip :: "string \<Rightarrow> string" where
  "strip s = rev (dropWhile is_space (rev (dropWhile is_space s)))"

text \<open>\<open>re.sub(r'\s+', ' ', s)\<close>: every maximal run of whitespace becomes one space.\<close>

function collapse_ws :: "string \<Rightarrow> string" where
  "collapse_ws [] = []"
| "collapse_ws (c # cs) =
     (if is_space c then CHR '' '' # collapse_ws (dropWhile is_space cs)
      else c # collapse_ws cs)"
  by pat_completeness auto
termination
  by (relation "measure length") (auto simp: le_imp_less_Suc length_dropWhile_le)

text \<open>\<open>str.lower()\<close> on ASCII text.\<close>

definition lower_char :: "char \<Rightarrow> char" where
  "lower_char c =
     (let k = (of_char c :: nat) in if 65 \<le> k \<and> k \<le> 90 then char_of (k + 32) else c)"

definition lower :: "string \<Rightarrow> string" where
  "lower s = map lower_char s"

section \<open>EmbeddingService: cleaning and chunking\<close>

text \<open>
  The fields of \<open>EmbeddingService\<close> that chunking reads. The tokenizer
  (\<open>tiktoken\<close>'s \<open>cl100k_base\<close>) is a library outside the repository, so its
  \<open>encode\<close> and \<open>decode\<close> are fields of the service, as \<open>self.encoding\<close> is.
\<close>

record EmbeddingService =
  encode :: "string \<Rightarrow> nat list"
  decode :: "nat list \<Rightarrow> string"
  max_tokens :: int
  chunk_size :: int
  chunk_overlap :: int

definition clean_text :: "EmbeddingService \<Rightarrow> string \<Rightarrow> string" where
  "clean_text svc text =
     (if text = [] then []
      else let text1 = collapse_ws (strip text);
               tokens = encode svc text1
           in if int (length tokens) > max_tokens svc
              then decode svc (py_slice tokens 0 (max_tokens svc))
              else text1)"

text \<open>
  The \<open>while\<close> loop of \<open>chunk_text\<close>. It collects the token slice of every chunk;
  \<open>chunk_text\<close> decodes each slice, as the loop body does before appending. The
  loop need not end for every configuration (an overlap that is not smaller than
  the chunk size never advances), so not returning is the value \<open>None\<close>.
\<close>

partial_function (option) chunk_loop ::
  "int \<Rightarrow> int \<Rightarrow> 'a list \<Rightarrow> int \<Rightarrow> 'a list list \<Rightarrow> 'a list list option" where
  "chunk_loop csize overlap tokens start chunks =
     (if start < int (length tokens) then
        let stop = start + csize;
            chunk_tokens = py_slice tokens start stop;
            chunks1 = chunks @ [chunk_tokens];
            start1 = stop - overlap
        in if start1 \<ge> int (length tokens) then Some chunks1
           else chunk_loop csize overlap tokens start1 chunks1
      else Some chunks)"

definition chunk_windows :: "EmbeddingService \<Rightarrow> nat list \<Rightarrow> nat list list option" where
  "chunk_windows svc tokens = chunk_loop (chunk_size svc) (chunk_overlap svc) tokens 0 []"

definition chunk_text :: "EmbeddingService \<Rightarrow> string \<Rightarrow> string list option" where
  "chunk_text svc text0 =
     (if text0 = [] then Some []
      else let text = clean_text svc text0;
               tokens = encode svc text
           in if int (length tokens) \<le> chunk_size svc then Some [text]
              else map_option (map (decode svc)) (chunk_windows svc tokens))"

text \<open>The configuration \<open>__init__\<close> sets, over a given tokenizer.\<close>

definition default_service :: "(string \<Rightarrow> nat list) \<Rightarrow> (nat list \<Rightarrow> string) \<Rightarrow> EmbeddingService" where
  "default_service enc dec =
     \<lparr>encode = enc, decode = dec, max_tokens = 8192, chunk_size = 500, chunk_overlap = 50\<rparr>"

text \<open>
  A tokenizer for concrete runs: one token per character. It round-trips, as the
  real one does.
\<close>

definition char_encode :: "string \<Rightarrow> nat list" where
  "char_encode s = map of_char s"

definition char_decode :: "nat list \<Rightarrow> string" where
  "char_decode ts = map char_of ts"

text \<open>
  The chunks in closed form: the window that starts at \<open>s\<close>, then the windows
  from \<open>s + size - overlap\<close> on.
\<close>

function windows_from :: "nat \<Rightarrow> nat \<Rightarrow> 'a list \<Rightarrow> nat \<Rightarrow> 'a list list" where
  "windows_from csize overlap tokens s =
     (if s < length tokens \<and> overlap < csize
      then take csize (drop s tokens) # windows_from csize overlap tokens (s + csize - overlap)
      else [])"
  by pat_completeness auto
termination
  by (relation "measure (\<lambda>(csize, overlap, tokens, s). length tokens - s)") auto

declare windows_from.simps [simp del]


section \<open>Stored rows\<close>

text \<open>
  The \<open>embedding\<close> columns are text fields holding JSON. Three contents matter to
  the code: the empty text, a JSON list of numbers, and text that \<open>json.loads\<close>
  rejects.
\<close>

datatype json_text = EmptyText | JsonVector "real list" | BadJson

record DocumentChunk =
  chunk_id :: nat
  content :: string
  embedding :: json_text
  source_type :: string
  source_id :: string
  source_title :: string
  chunk_index :: nat
  is_active :: bool
  created_at :: nat

definition get_embedding_vector :: "DocumentChunk \<Rightarrow> real list" where
  "get_embedding_vector c =
     (case embedding c of EmptyText \<Rightarrow> [] | JsonVector v \<Rightarrow> v | BadJson \<Rightarrow> [])"

record EmbeddingCache =
  text_hash :: string
  text_content :: string
  ec_embedding :: json_text
  model_name :: string
  ec_token_count :: nat
  ec_created_at :: nat
  expires_at :: "nat option"


section \<open>Cosine similarity\<close>

text \<open>
  \<open>np.dot\<close> of two one-dimensional arrays raises \<open>ValueError\<close> when their lengths
  differ. A division whose divisor is zero is the failure \<open>ZeroDivisionError\<close>, so
  that a theorem can say the code never divides by zero.
\<close>

definition np_dot :: "real list \<Rightarrow> real list \<Rightarrow> exn + real" where
  "np_dot a b =
     (if length a \<noteq> length b then Inl ValueError else Inr (sum_list (map2 (*) a b)))"

definition linalg_norm :: "real list \<Rightarrow> real" where
  "linalg_norm v = sqrt (sum_list (map (\<lambda>x. x * x) v))"

definition true_div :: "real \<Rightarrow> real \<Rightarrow> exn + real" where
  "true_div x y = (if y = 0 then Inl ZeroDivisionError else Inr (x / y))"

text \<open>
  \<open>_cosine_similarity\<close>, the same in \<open>RAGService\<close> and \<open>OptimizedRAGService\<close>:
  the body of the \<open>try\<close>, then the handler that turns every exception into 0.0.
\<close>

definition cosine_similarity_body :: "real list \<Rightarrow> real list \<Rightarrow> exn + real" where
  "cosine_similarity_body vec1 vec2 =
     (case np_dot vec1 vec2 of
        Inl e \<Rightarrow> Inl e
      | Inr dot_product \<Rightarrow>
          let norm_a = linalg_norm vec1; norm_b = linalg_norm vec2
          in if norm_a = 0 \<or> norm_b = 0 then Inr 0
             else true_div dot_product (norm_a * norm_b))"

definition cosine_similarity :: "real list \<Rightarrow> real list \<Rightarrow> real" where
  "cosine_similarity vec1 vec2 =
     (case cosine_similarity_body vec1 vec2 of Inl e \<Rightarrow> 0 | Inr s \<Rightarrow> s)"

text \<open>
  The vectorised computation of one batch: one row per chunk embedding, dividing
  only where the product of the norms is positive.
\<close>

definition row_similarity :: "real list \<Rightarrow> real list \<Rightarrow> exn + real" where
  "row_similarity query_embedding e =
     (case np_dot e query_embedding of
        Inl x \<Rightarrow> Inl x
      | Inr dot_product \<Rightarrow>
          let n = linalg_norm e * linalg_norm query_embedding
          in if n > 0 then true_div dot_product n else Inr 0)"

fun collect :: "(exn + 'a) list \<Rightarrow> exn + 'a list" where
  "collect [] = Inr []"
| "collect (x # xs) =
     (case x of
        Inl e \<Rightarrow> Inl e
      | Inr v \<Rightarrow> (case collect xs of Inl e \<Rightarrow> Inl e | Inr vs \<Rightarrow> Inr (v # vs)))"

definition vectorized_similarities :: "real list \<Rightarrow> real list list \<Rightarrow> exn + real list" where
  "vectorized_similarities query_embedding batch_embeddings =
     collect (map (row_similarity query_embedding) batch_embeddings)"

text \<open>
  One pass of the batch loop of \<open>_batch_calculate_similarities\<close>: keep the chunks
  whose vector is non-empty and as long as the query's, compute their similarities
  at once, and fall back to \<open>_cosine_similarity\<close> per chunk if that raises.
\<close>

definition process_batch :: "real list \<Rightarrow> DocumentChunk list \<Rightarrow> (DocumentChunk \<times> real) list" where
  "process_batch query_embedding batch =
     (let valid_chunks =
            filter (\<lambda>c. get_embedding_vector c \<noteq> []
                         \<and> length (get_embedding_vector c) = length query_embedding) batch
      in if valid_chunks = [] then []
         else case vectorized_similarities query_embedding (map get_embedding_vector valid_chunks) of
                Inr batch_similarities \<Rightarrow> zip valid_chunks batch_similarities
              | Inl e \<Rightarrow>
                  map (\<lambda>c. (c, cosine_similarity query_embedding (get_embedding_vector c)))
                    valid_chunks)"

text \<open>\<open>chunks[i:i + n]\<close> for \<open>i\<close> in \<open>range(0, len(chunks), n)\<close>.\<close>

function batches :: "nat \<Rightarrow> 'a list \<Rightarrow> 'a list list" where
  "batches n xs = (if n = 0 \<or> xs = [] then [] else take n xs # batches n (drop n xs))"
  by pat_completeness auto
termination
  by (relation "measure (\<lambda>(n, xs). length xs)") auto

declare batches.simps [simp del]

text \<open>
  \<open>range\<close> raises \<open>ValueError\<close> for a step of zero and is empty for a negative
  step.
\<close>

definition batch_calculate_similarities ::
  "int \<Rightarrow> real list \<Rightarrow> DocumentChunk list \<Rightarrow> exn + (DocumentChunk \<times> real) list" where
  "batch_calculate_similarities bsize query_embedding chunks =
     (if bsize = 0 then Inl ValueError
      else if bsize < 0 then Inr []
      else Inr (concat (map (process_batch query_embedding) (batches (nat bsize) chunks))))"

text \<open>
  \<open>list.sort(key=lambda x: x[1], reverse=True)\<close>: descending by score, and
  stable (equal scores keep their order).
\<close>

definition sort_desc :: "('a \<times> real) list \<Rightarrow> ('a \<times> real) list" where
  "sort_desc xs = sort_key (\<lambda>p. - snd p) xs"

section \<open>The world outside and the stores\<close>

text \<open>
  What the services call but do not contain: the two HTTP endpoints, the hash
  functions, whether the cache backend and the database answer, and the clock
  difference \<open>time.time() - start_time\<close>. \<open>py_hash\<close> stands for
  \<open>str(hash(s))\<close> of the interpreter.
\<close>

record World =
  api_key :: bool
  md5 :: "string \<Rightarrow> string"
  py_hash :: "string \<Rightarrow> string"
  embeddings_api :: "string \<Rightarrow> exn + real list"
  chat_api :: "string \<Rightarrow> string \<Rightarrow> exn + (string \<times> nat)"
  cache_get_fails :: bool
  cache_set_fails :: bool
  db_read_fails :: bool
  db_write_fails :: bool
  elapsed :: real

text \<open>The response dictionary of \<open>OptimizedRAGService.query\<close>.\<close>

record Response =
  answer :: string
  confidence :: real
  response_time :: real
  chunks_used :: "nat list"
  chunks_retrieved :: nat
  r_context_type :: "string option"
  r_source_id :: "string option"
  tokens_used :: nat
  model_used :: string

text \<open>The result dictionary of \<open>RAGService.query\<close>: it has no confidence.\<close>

record LegacyResult =
  l_answer :: string
  l_sources :: "nat list"
  l_chunks_found :: "nat option"
  l_error :: "exn option"

text \<open>
  What the code stores in the Django cache: the JSON string that
  \<open>EmbeddingService\<close> writes, the two dictionaries that \<open>CacheService\<close> writes,
  and the result that \<open>RAGService\<close> writes.
\<close>

datatype cache_value =
    EmbeddingJson "real list"
  | EmbeddingData "real list" string string nat
  | RagData Response nat
  | LegacyData LegacyResult

record RAGQuery =
  query_text :: string
  response_generated :: string
  confidence_score :: real

record ContentProcessingJob =
  job_id :: nat
  job_source_type :: string
  job_source_id :: string
  job_content :: string
  status :: string
  chunks_created :: nat
  error_message :: string

text \<open>
  The stores: cache entries with the time at which they lapse, the current time,
  and the tables.
\<close>

record State =
  cache :: "string \<Rightarrow> (cache_value \<times> nat) option"
  now :: nat
  document_chunks :: "DocumentChunk list"
  embedding_cache :: "EmbeddingCache list"
  rag_queries :: "RAGQuery list"
  jobs :: "ContentProcessingJob list"

definition cache_get :: "World \<Rightarrow> State \<Rightarrow> string \<Rightarrow> exn + cache_value option" where
  "cache_get w st key =
     (if cache_get_fails w then Inl CacheError
      else Inr (case cache st key of
                  None \<Rightarrow> None
                | Some (v, lapses) \<Rightarrow> if now st < lapses then Some v else None))"

definition cache_set :: "World \<Rightarrow> State \<Rightarrow> string \<Rightarrow> cache_value \<Rightarrow> nat \<Rightarrow> exn + State" where
  "cache_set w st key v timeout =
     (if cache_set_fails w then Inl CacheError
      else Inr (st\<lparr>cache := (cache st)(key \<mapsto> (v, now st + timeout))\<rparr>))"

text \<open>Truthiness of an optional string: \<open>None\<close> and \<open>''\<close> are false.\<close>

definition truthy :: "string option \<Rightarrow> bool" where
  "truthy x = (case x of None \<Rightarrow> False | Some s \<Rightarrow> s \<noteq> [])"

text \<open>\<open>x or d\<close> for an optional string.\<close>

definition or_else :: "string option \<Rightarrow> string \<Rightarrow> string" where
  "or_else x d = (case x of None \<Rightarrow> d | Some s \<Rightarrow> if s = [] then d else s)"

section \<open>EmbeddingService.create\_embedding\<close>

definition get_cached_embedding_json :: "World \<Rightarrow> State \<Rightarrow> string \<Rightarrow> real list option" where
  "get_cached_embedding_json w st cache_key =
     (case cache_get w st (''embedding_'' @ cache_key) of
        Inr (Some (EmbeddingJson v)) \<Rightarrow> Some v
      | _ \<Rightarrow> None)"

definition cache_embedding_json :: "World \<Rightarrow> State \<Rightarrow> string \<Rightarrow> real list \<Rightarrow> State" where
  "cache_embedding_json w st cache_key embedding_vec =
     (case cache_set w st (''embedding_'' @ cache_key) (EmbeddingJson embedding_vec) (3600 * 24 * 7) of
        Inl e \<Rightarrow> st
      | Inr st1 \<Rightarrow> st1)"

definition create_embedding ::
  "EmbeddingService \<Rightarrow> World \<Rightarrow> State \<Rightarrow> string \<Rightarrow> (exn + real list) \<times> State" where
  "create_embedding es w st text0 =
     (if \<not> api_key w then (Inl ValueError, st)
      else let cache_key = md5 w text0 in
        case get_cached_embedding_json w st cache_key of
          Some (x # xs) \<Rightarrow> (Inr (x # xs), st)
        | _ \<Rightarrow>
            let text = clean_text es text0 in
            if strip text = [] then (Inl ValueError, st)
            else case embeddings_api w text of
                   Inl e \<Rightarrow> (Inl e, st)
                 | Inr embedding_vec \<Rightarrow>
                     (Inr embedding_vec, cache_embedding_json w st cache_key embedding_vec))"

section \<open>Similarity search\<close>

record OptimizedRAGService =
  client :: bool
  embedding_service :: EmbeddingService
  model :: string
  max_context_tokens :: real
  max_chunks :: nat
  similarity_threshold :: real
  batch_size :: int

text \<open>
  The candidates of \<open>optimized_similarity_search\<close>: active chunks with a
  non-empty embedding, filtered by source, newest first, three times the limit.
  A limit is a count, so it is a natural number here.
\<close>

definition candidate_chunks ::
  "State \<Rightarrow> string option \<Rightarrow> string option \<Rightarrow> nat \<Rightarrow> DocumentChunk list" where
  "candidate_chunks st context_type src_id limit =
     (let q0 = filter (\<lambda>c. is_active c \<and> embedding c \<noteq> EmptyText) (document_chunks st);
          q1 = (if truthy context_type then filter (\<lambda>c. source_type c = the context_type) q0 else q0);
          q2 = (if truthy src_id then filter (\<lambda>c. source_id c = the src_id) q1 else q1)
      in take (limit * 3) (sort_key (\<lambda>c. - int (created_at c)) q2))"

text \<open>
  The body of the \<open>try\<close> of \<open>optimized_similarity_search\<close>, keeping each
  returned chunk with its score, and the handler that returns the empty list.
\<close>

definition similarity_search_body ::
  "OptimizedRAGService \<Rightarrow> World \<Rightarrow> State \<Rightarrow> string \<Rightarrow> string option \<Rightarrow> string option \<Rightarrow> nat
     \<Rightarrow> (exn + (DocumentChunk \<times> real) list) \<times> State" where
  "similarity_search_body svc w st query context_type src_id limit =
     (case create_embedding (embedding_service svc) w st query of
        (Inl e, st1) \<Rightarrow> (Inl e, st1)
      | (Inr query_embedding, st1) \<Rightarrow>
          if query_embedding = [] then (Inr [], st1)
          else if db_read_fails w then (Inl DatabaseError, st1)
          else let chunks = candidate_chunks st1 context_type src_id limit in
            if chunks = [] then (Inr [], st1)
            else case batch_calculate_similarities (batch_size svc) query_embedding chunks of
                   Inl e \<Rightarrow> (Inl e, st1)
                 | Inr chunk_similarities \<Rightarrow>
                     let filtered_similarities =
                           filter (\<lambda>(chunk, similarity). similarity \<ge> similarity_threshold svc)
                             chunk_similarities
                     in (Inr (take limit (sort_desc filtered_similarities)), st1))"

definition scored_similarity_search ::
  "OptimizedRAGService \<Rightarrow> World \<Rightarrow> State \<Rightarrow> string \<Rightarrow> string option \<Rightarrow> string option \<Rightarrow> nat
     \<Rightarrow> (DocumentChunk \<times> real) list \<times> State" where
  "scored_similarity_search svc w st query context_type src_id limit =
     (case similarity_search_body svc w st query context_type src_id limit of
        (Inl e, st1) \<Rightarrow> ([], st1)
      | (Inr ranked, st1) \<Rightarrow> (ranked, st1))"

definition optimized_similarity_search ::
  "OptimizedRAGService \<Rightarrow> World \<Rightarrow> State \<Rightarrow> string \<Rightarrow> string option \<Rightarrow> string option \<Rightarrow> nat
     \<Rightarrow> DocumentChunk list \<times> State" where
  "optimized_similarity_search svc w st query context_type src_id limit =
     (case scored_similarity_search svc w st query context_type src_id limit of
        (ranked, st1) \<Rightarrow> (map fst ranked, st1))"

text \<open>
  \<open>RAGService._get_relevant_chunks\<close>: the first hundred chunks of the filtered
  table, scored one by one, sorted, cut to \<open>max_chunks\<close>, then filtered by the
  threshold. A chunk whose JSON does not parse is skipped.
\<close>

record RAGService =
  rs_embedding_service :: EmbeddingService
  rs_max_chunks :: nat
  rs_similarity_threshold :: real

definition legacy_candidates :: "State \<Rightarrow> string option \<Rightarrow> string option \<Rightarrow> DocumentChunk list" where
  "legacy_candidates st context_type src_id =
     (let q0 = document_chunks st;
          q1 = (if truthy context_type then filter (\<lambda>c. source_type c = the context_type) q0 else q0);
          q2 = (if truthy src_id then filter (\<lambda>c. source_id c = the src_id) q1 else q1)
      in take 100 q2)"

fun legacy_similarities :: "real list \<Rightarrow> DocumentChunk list \<Rightarrow> (DocumentChunk \<times> real) list" where
  "legacy_similarities q [] = []"
| "legacy_similarities q (chunk # rest) =
     (case embedding chunk of
        JsonVector chunk_embedding \<Rightarrow>
          (chunk, cosine_similarity q chunk_embedding) # legacy_similarities q rest
      | _ \<Rightarrow> legacy_similarities q rest)"

definition scored_relevant_chunks ::
  "RAGService \<Rightarrow> World \<Rightarrow> State \<Rightarrow> string \<Rightarrow> string option \<Rightarrow> string option \<Rightarrow> nat
     \<Rightarrow> (DocumentChunk \<times> real) list \<times> State" where
  "scored_relevant_chunks svc w st question context_type src_id mx =
     (case create_embedding (rs_embedding_service svc) w st question of
        (Inl e, st1) \<Rightarrow> ([], st1)
      | (Inr question_embedding, st1) \<Rightarrow>
          if db_read_fails w then ([], st1)
          else let chunks = legacy_candidates st1 context_type src_id in
            if chunks = [] then ([], st1)
            else let similarities = sort_desc (legacy_similarities question_embedding chunks)
                 in (filter (\<lambda>(chunk, sim). sim \<ge> rs_similarity_threshold svc)
                       (take mx similarities), st1))"

definition get_relevant_chunks ::
  "RAGService \<Rightarrow> World \<Rightarrow> State \<Rightarrow> string \<Rightarrow> string option \<Rightarrow> string option \<Rightarrow> nat
     \<Rightarrow> DocumentChunk list \<times> State" where
  "get_relevant_chunks svc w st question context_type src_id mx =
     (case scored_relevant_chunks svc w st question context_type src_id mx of
        (ranked, st1) \<Rightarrow> (map fst ranked, st1))"

section \<open>What a search result must satisfy\<close>

text \<open>The query vector a search works with, if \<open>create_embedding\<close> returns one.\<close>

definition query_vector :: "EmbeddingService \<Rightarrow> World \<Rightarrow> State \<Rightarrow> string \<Rightarrow> real list option" where
  "query_vector es w st query =
     (case fst (create_embedding es w st query) of Inl e \<Rightarrow> None | Inr v \<Rightarrow> Some v)"

text \<open>
  A ranked result is acceptable for a threshold, a limit, a chunk table and a query
  vector when every returned chunk is a chunk of the table whose score is its
  cosine similarity to the query vector and reaches the threshold, the scores
  descend, there are at most \<open>limit\<close> results, and nothing is returned when no
  chunk of the table reaches the threshold.
\<close>

definition search_result_ok ::
  "real \<Rightarrow> nat \<Rightarrow> DocumentChunk list \<Rightarrow> real list option \<Rightarrow> (DocumentChunk \<times> real) list \<Rightarrow> bool" where
  "search_result_ok threshold limit table q ranked =
     (list_all (\<lambda>(c, s). s \<ge> threshold \<and> c \<in> set table
                  \<and> (case q of None \<Rightarrow> False
                      | Some qv \<Rightarrow> s = cosine_similarity qv (get_embedding_vector c))) ranked
      \<and> sorted (map (\<lambda>p. - snd p) ranked)
      \<and> length ranked \<le> limit
      \<and> (list_all (\<lambda>c. case q of None \<Rightarrow> True
                        | Some qv \<Rightarrow> cosine_similarity qv (get_embedding_vector c) < threshold) table
           \<longrightarrow> ranked = []))"

section \<open>Confidence scoring\<close>

text \<open>The dictionary \<open>_generate_answer\<close> returns.\<close>

record AnswerResult =
  ar_answer :: string
  ar_tokens_used :: nat
  ar_model_used :: string

text \<open>\<open>p in s\<close> for strings: \<open>p\<close> occurs in \<open>s\<close> as a contiguous run.\<close>

fun is_substring :: "string \<Rightarrow> string \<Rightarrow> bool" where
  "is_substring p [] = (p = [])"
| "is_substring p (c # cs) = (prefix p (c # cs) \<or> is_substring p cs)"

definition uncertainty_indicators :: "string list" where
  "uncertainty_indicators =
     [''not sure'', ''unclear'', ''don't know'', ''insufficient'', ''limited information'']"

text \<open>
  \<open>round(x, 2)\<close>: the nearest multiple of 0.01, a tie going to the even
  multiple.
\<close>

definition py_round2 :: "real \<Rightarrow> real" where
  "py_round2 x =
     (let y = x * 100; f = \<lfloor>y\<rfloor>; d = y - of_int f
      in (if d < 1 / 2 then of_int f
          else if d > 1 / 2 then of_int (f + 1)
          else if even f then of_int f else of_int (f + 1)) / 100)"

text \<open>
  \<open>_calculate_confidence\<close>: the body of the \<open>try\<close> (the only operation that can
  raise on well-typed arguments is the division by \<open>self.max_chunks\<close>), and the
  handler that returns 0.5.
\<close>

definition calculate_confidence_body ::
  "OptimizedRAGService \<Rightarrow> AnswerResult \<Rightarrow> DocumentChunk list \<Rightarrow> exn + real" where
  "calculate_confidence_body svc answer_result chunks =
     (let base_confidence = 1 / 2 in
      case true_div (real (length chunks)) (real (max_chunks svc)) of
        Inl e \<Rightarrow> Inl e
      | Inr ratio \<Rightarrow>
          let chunk_factor = min ratio 1 * (3 / 10);
              answer_length = length (ar_answer answer_result);
              length_factor = min (real answer_length / 200) 1 * (2 / 10);
              tokens = ar_tokens_used answer_result;
              token_factor = min (real tokens / 300) 1 * (2 / 10);
              answer_text = lower (ar_answer answer_result);
              uncertainty_factor =
                (if list_ex (\<lambda>indicator. is_substring indicator answer_text) uncertainty_indicators
                 then 1 / 10 else 0);
              c = base_confidence + chunk_factor + length_factor + token_factor - uncertainty_factor;
              c1 = max 0 (min 1 c)
          in Inr (py_round2 c1))"

definition calculate_confidence ::
  "OptimizedRAGService \<Rightarrow> AnswerResult \<Rightarrow> DocumentChunk list \<Rightarrow> real" where
  "calculate_confidence svc answer_result chunks =
     (case calculate_confidence_body svc answer_result chunks of
        Inl e \<Rightarrow> 1 / 2
      | Inr c \<Rightarrow> c)"

subsection \<open>The score as the specification words it\<close>






section \<open>Query-cache keys\<close>

text \<open>\<open>sep.join(parts)\<close>.\<close>

fun join :: "string \<Rightarrow> string list \<Rightarrow> string" where
  "join sep [] = []"
| "join sep [x] = x"
| "join sep (x # y # ys) = x @ sep @ join sep (y # ys)"

text \<open>\<open>OptimizedRAGService._get_query_cache_key\<close>.\<close>

definition get_query_cache_key :: "World \<Rightarrow> string \<Rightarrow> string option \<Rightarrow> string option \<Rightarrow> string" where
  "get_query_cache_key w question context_type src_id =
     (let normalized_question = strip (lower question);
          cache_string = normalized_question @ '':'' @ or_else context_type ''all''
                           @ '':'' @ or_else src_id ''all'';
          cache_hash = md5 w cache_string
      in ''rag_query_optimized:'' @ cache_hash)"

text \<open>
  \<open>RAGService._get_query_cache_key\<close>: the raw question joined with the filters,
  through the interpreter's \<open>hash\<close>.
\<close>

definition legacy_key_string :: "string \<Rightarrow> string option \<Rightarrow> string option \<Rightarrow> string" where
  "legacy_key_string question context_type src_id =
     join ''_'' [question, or_else context_type '''', or_else src_id '''']"

definition legacy_get_query_cache_key ::
  "World \<Rightarrow> string \<Rightarrow> string option \<Rightarrow> string option \<Rightarrow> string" where
  "legacy_get_query_cache_key w question context_type src_id =
     ''rag_query_'' @ py_hash w (legacy_key_string question context_type src_id)"

text \<open>
  Two questions differ only in letter case or in leading and trailing whitespace:
  each is a core wrapped in whitespace, and the cores are equal up to letter case.
\<close>

definition same_up_to_case_and_margin :: "string \<Rightarrow> string \<Rightarrow> bool" where
  "same_up_to_case_and_margin q1 q2 =
     (\<exists>pre1 core1 post1 pre2 core2 post2.
        q1 = pre1 @ core1 @ post1 \<and> q2 = pre2 @ core2 @ post2
        \<and> list_all is_space (pre1 @ post1 @ pre2 @ post2)
        \<and> lower core1 = lower core2)"

section \<open>CacheService: the two-tier embedding cache\<close>

definition embedding_timeout :: nat where
  "embedding_timeout = 86400 * 7"

definition get_embedding_cache_key :: "World \<Rightarrow> string \<Rightarrow> string" where
  "get_embedding_cache_key w text = ''embedding:'' @ md5 w text"

text \<open>
  \<open>CacheService.get_cached_embedding\<close>: the body of the \<open>try\<close>, then the
  handler that returns \<open>None\<close>. The fast tier answers when it holds a dictionary
  with the key \<open>embedding\<close>; otherwise the row with the text's hash is read,
  its JSON is parsed (\<open>json.loads\<close> raises a \<open>ValueError\<close> on text that is not
  JSON), the vector is written to the fast tier, and returned. \<open>text_hash\<close> is a
  unique column, so \<open>filter(...).first()\<close> is the one row with that hash.
\<close>

definition get_cached_embedding_body ::
  "World \<Rightarrow> State \<Rightarrow> string \<Rightarrow> (exn + real list option) \<times> State" where
  "get_cached_embedding_body w st text =
     (let cache_key = get_embedding_cache_key w text in
      case cache_get w st cache_key of
        Inl e \<Rightarrow> (Inl e, st)
      | Inr (Some (EmbeddingData v t m c)) \<Rightarrow> (Inr (Some v), st)
      | Inr other \<Rightarrow>
          if db_read_fails w then (Inl DatabaseError, st)
          else case find (\<lambda>row. text_hash row = md5 w text) (embedding_cache st) of
                 None \<Rightarrow> (Inr None, st)
               | Some row \<Rightarrow>
                   (case ec_embedding row of
                      JsonVector embedding_vector \<Rightarrow>
                        (case cache_set w st cache_key
                                (EmbeddingData embedding_vector (text_content row) (model_name row)
                                   (ec_created_at row))
                                embedding_timeout of
                           Inl e \<Rightarrow> (Inl e, st)
                         | Inr st1 \<Rightarrow> (Inr (Some embedding_vector), st1))
                    | other_text \<Rightarrow> (Inl ValueError, st)))"

definition get_cached_embedding :: "World \<Rightarrow> State \<Rightarrow> string \<Rightarrow> real list option \<times> State" where
  "get_cached_embedding w st text =
     (case get_cached_embedding_body w st text of
        (Inl e, st1) \<Rightarrow> (None, st1)
      | (Inr r, st1) \<Rightarrow> (r, st1))"

text \<open>The fast tier alone: what the first lines of the lookup find there.\<close>

definition fast_tier_lookup :: "World \<Rightarrow> State \<Rightarrow> string \<Rightarrow> real list option" where
  "fast_tier_lookup w st text =
     (case cache_get w st (get_embedding_cache_key w text) of
        Inr (Some (EmbeddingData v t m c)) \<Rightarrow> Some v
      | other \<Rightarrow> None)"

text \<open>The durable tier alone: the vector stored for the text, if its row parses.\<close>

definition durable_tier_lookup :: "World \<Rightarrow> State \<Rightarrow> string \<Rightarrow> real list option" where
  "durable_tier_lookup w st text =
     (if db_read_fails w then None
      else case find (\<lambda>row. text_hash row = md5 w text) (embedding_cache st) of
             None \<Rightarrow> None
           | Some row \<Rightarrow> (case ec_embedding row of JsonVector v \<Rightarrow> Some v | other \<Rightarrow> None))"

text \<open>A state whose durable tier holds one row that lapsed long ago.\<close>

definition expired_row :: EmbeddingCache where
  "expired_row =
     \<lparr>text_hash = ''hello'', text_content = ''hello'', ec_embedding = JsonVector [1, 0],
      model_name = ''text-embedding-ada-002'', ec_token_count = 1, ec_created_at = 0,
      expires_at = Some 5\<rparr>"


text \<open>A state whose durable tier holds one row that never lapses; the fast tier is empty.\<close>

definition durable_state :: State where
  "durable_state =
     \<lparr>cache = Map.empty, now = 100, document_chunks = [],
      embedding_cache = [expired_row\<lparr>text_hash := ''world'', expires_at := None\<rparr>],
      rag_queries = [], jobs = []\<rparr>"

section \<open>OptimizedRAGService.query\<close>

definition nl :: string where
  "nl = [CHR 0x0A]"

text \<open>\<open>s.split()\<close>: the maximal runs of non-whitespace characters.\<close>

fun split_acc :: "string \<Rightarrow> string \<Rightarrow> string list" where
  "split_acc cur [] = (if cur = [] then [] else [cur])"
| "split_acc cur (c # cs) =
     (if is_space c then (if cur = [] then split_acc [] cs else cur # split_acc [] cs)
      else split_acc (cur @ [c]) cs)"

definition split_ws :: "string \<Rightarrow> string list" where
  "split_ws s = split_acc [] s"

definition SOURCE_TYPES :: "(string \<times> string) list" where
  "SOURCE_TYPES =
     [(''profile'', ''Profile Information''),
      (''project'', ''Project Description''),
      (''experience'', ''Work Experience''),
      (''skills'', ''Skills Information''),
      (''education'', ''Education Background''),
      (''resume'', ''Resume Content''),
      (''blog'', ''Blog Post''),
      (''code'', ''Code Documentation'')]"

text \<open>Django's \<open>get_FOO_display\<close>: the label of the choice, or the value itself.\<close>

definition get_source_type_display :: "DocumentChunk \<Rightarrow> string" where
  "get_source_type_display chunk =
     (case map_of SOURCE_TYPES (source_type chunk) of
        Some label \<Rightarrow> label
      | None \<Rightarrow> source_type chunk)"

text \<open>
  The loop of \<open>_prepare_context\<close>, with its \<open>break\<close> when the estimated token count
  would pass \<open>max_context_tokens\<close>.
\<close>

fun context_loop :: "real \<Rightarrow> DocumentChunk list \<Rightarrow> string list \<Rightarrow> real \<Rightarrow> string list" where
  "context_loop mx [] context_parts total_tokens = context_parts"
| "context_loop mx (chunk # rest) context_parts total_tokens =
     (let chunk_context =
            ''[Source: '' @ get_source_type_display chunk
              @ (if source_title chunk \<noteq> [] then '' - '' @ source_title chunk else [])
              @ '']'' @ nl @ content chunk @ nl;
          chunk_tokens = real (length (split_ws (content chunk))) * (13 / 10)
      in if total_tokens + chunk_tokens > mx then context_parts
         else context_loop mx rest (context_parts @ [chunk_context]) (total_tokens + chunk_tokens))"

text \<open>\<open>_prepare_context\<close>: nothing in its \<open>try\<close> raises on a list of chunks.\<close>

definition prepare_context :: "OptimizedRAGService \<Rightarrow> DocumentChunk list \<Rightarrow> string \<Rightarrow> string" where
  "prepare_context svc chunks question =
     (let context_parts = context_loop (max_context_tokens svc) chunks [] 0;
          context = join nl context_parts
      in ''Based on the following information about the developer's portfolio:'' @ nl @ nl
           @ context @ nl @ nl
           @ ''Please answer the following question using only the information provided above. If the information doesn't contain enough detail to answer the question, please say so.'')"

definition system_message :: string where
  "system_message =
     ''You are an AI assistant representing a developer's portfolio. Your role is to answer questions about the developer's skills, experience, and projects based on the provided context.''
     @ nl @ nl @ ''Guidelines:''
     @ nl @ ''- Answer based only on the information provided in the context''
     @ nl @ ''- Be helpful, professional, and accurate''
     @ nl @ ''- If you don't have enough information, say so clearly''
     @ nl @ ''- Highlight relevant skills, experience, and achievements''
     @ nl @ ''- Keep responses concise but informative''
     @ nl @ ''- Use a friendly, professional tone''"

definition user_message :: "string \<Rightarrow> string \<Rightarrow> string" where
  "user_message context question = context @ nl @ nl @ ''Question: '' @ question"

definition generation_apology :: string where
  "generation_apology =
     ''I'm sorry, I encountered an error while generating a response. Please try again.''"

text \<open>
  \<open>_generate_answer\<close>: the completion and its token count, or, in the handler, the
  apology with no tokens.
\<close>

definition generate_answer ::
  "OptimizedRAGService \<Rightarrow> World \<Rightarrow> string \<Rightarrow> string \<Rightarrow> DocumentChunk list \<Rightarrow> AnswerResult" where
  "generate_answer svc w question context chunks =
     (case chat_api w system_message (user_message context question) of
        Inr (answer_text, tokens) \<Rightarrow>
          \<lparr>ar_answer = answer_text, ar_tokens_used = tokens, ar_model_used = model svc\<rparr>
      | Inl e \<Rightarrow>
          \<lparr>ar_answer = generation_apology, ar_tokens_used = 0, ar_model_used = model svc\<rparr>)"

definition fallback_response :: "string \<Rightarrow> Response" where
  "fallback_response message =
     \<lparr>answer = message, confidence = 0, response_time = 0, chunks_used = [],
      chunks_retrieved = 0, r_context_type = None, r_source_id = None, tokens_used = 0,
      model_used = ''fallback''\<rparr>"

definition rag_timeout :: nat where
  "rag_timeout = 3600"

text \<open>
  \<open>CacheService.get_rag_query_cache\<close>: the response of a cached dictionary that has
  the key \<open>response\<close>; \<open>None\<close> for anything else and on any exception.
\<close>

definition get_rag_query_cache :: "World \<Rightarrow> State \<Rightarrow> string \<Rightarrow> Response option" where
  "get_rag_query_cache w st cache_key =
     (case cache_get w st cache_key of
        Inr (Some (RagData response cached_at)) \<Rightarrow> Some response
      | other \<Rightarrow> None)"

text \<open>\<open>CacheService.set_rag_query_cache\<close>: it logs and re-raises.\<close>

definition set_rag_query_cache :: "World \<Rightarrow> State \<Rightarrow> string \<Rightarrow> Response \<Rightarrow> exn + State" where
  "set_rag_query_cache w st cache_key response =
     cache_set w st cache_key (RagData response (now st)) rag_timeout"

text \<open>\<open>_log_rag_query\<close>: a failed insert is logged and dropped.\<close>

definition log_rag_query :: "World \<Rightarrow> State \<Rightarrow> string \<Rightarrow> AnswerResult \<Rightarrow> real \<Rightarrow> State" where
  "log_rag_query w st question answer_result conf =
     (if db_write_fails w then st
      else st\<lparr>rag_queries := rag_queries st @
                 [\<lparr>query_text = question, response_generated = ar_answer answer_result,
                   confidence_score = conf\<rparr>]\<rparr>)"

text \<open>\<open>max_chunks or self.max_chunks\<close>.\<close>

definition chunk_limit :: "OptimizedRAGService \<Rightarrow> nat option \<Rightarrow> nat" where
  "chunk_limit svc mx = (case mx of None \<Rightarrow> max_chunks svc | Some m \<Rightarrow> if m = 0 then max_chunks svc else m)"

definition not_configured_message :: string where
  "not_configured_message = ''AI service is not configured. Please try again later.''"

definition nothing_found_message :: string where
  "nothing_found_message = ''I couldn't find relevant information to answer your question.''"

definition query_error_message :: string where
  "query_error_message =
     ''I encountered an error while processing your question. Please try again.''"

text \<open>
  The body of the \<open>try\<close> of \<open>query\<close>. The only call in it that lets an exception
  out is \<open>set_rag_query_cache\<close>; the search, the answer, the score and the log each
  catch their own.
\<close>

definition query_body ::
  "OptimizedRAGService \<Rightarrow> World \<Rightarrow> State \<Rightarrow> string \<Rightarrow> string option \<Rightarrow> string option
     \<Rightarrow> nat option \<Rightarrow> (exn + Response) \<times> State" where
  "query_body svc w st question context_type src_id mx =
     (if \<not> client svc then (Inr (fallback_response not_configured_message), st)
      else
        let cache_key = get_query_cache_key w question context_type src_id in
        case get_rag_query_cache w st cache_key of
          Some cached_result \<Rightarrow> (Inr cached_result, st)
        | None \<Rightarrow>
            (case optimized_similarity_search svc w st question context_type src_id
                    (chunk_limit svc mx) of
               (relevant_chunks, st1) \<Rightarrow>
                 if relevant_chunks = [] then (Inr (fallback_response nothing_found_message), st1)
                 else
                   let context = prepare_context svc relevant_chunks question;
                       answer_result = generate_answer svc w question context relevant_chunks;
                       conf = calculate_confidence svc answer_result relevant_chunks;
                       processing_time = elapsed w;
                       response =
                         \<lparr>answer = ar_answer answer_result, confidence = conf,
                          response_time = processing_time,
                          chunks_used = map chunk_id relevant_chunks,
                          chunks_retrieved = length relevant_chunks,
                          r_context_type = context_type, r_source_id = src_id,
                          tokens_used = ar_tokens_used answer_result,
                          model_used = model svc\<rparr>
                   in case set_rag_query_cache w st1 cache_key response of
                        Inl e \<Rightarrow> (Inl e, st1)
                      | Inr st2 \<Rightarrow>
                          (Inr response, log_rag_query w st2 question answer_result conf)))"

text \<open>\<open>query\<close>: the body, and the handler that answers with the fallback.\<close>

definition query ::
  "OptimizedRAGService \<Rightarrow> World \<Rightarrow> State \<Rightarrow> string \<Rightarrow> string option \<Rightarrow> string option
     \<Rightarrow> nat option \<Rightarrow> Response \<times> State" where
  "query svc w st question context_type src_id mx =
     (case query_body svc w st question context_type src_id mx of
        (Inl e, st1) \<Rightarrow> (fallback_response query_error_message, st1)
      | (Inr response, st1) \<Rightarrow> (response, st1))"

subsection \<open>The steps of the pipeline that can fail\<close>






section \<open>A concrete world for running the definitions\<close>

text \<open>
  A chunk table with three stored chunks (two vectors of the query's dimension, one
  stale vector of another dimension), an embedding endpoint that answers every
  text with the vector \<open>[1, 0]\<close>, hash functions that are the identity, and the
  services as \<open>__init__\<close> configures them.
\<close>

definition example_chunk :: "nat \<Rightarrow> real list \<Rightarrow> DocumentChunk" where
  "example_chunk i v =
     \<lparr>chunk_id = i, content = ''Python and Django'', embedding = JsonVector v,
      source_type = ''profile'', source_id = ''p1'', source_title = ''Bio'',
      chunk_index = i, is_active = True, created_at = i\<rparr>"

definition example_world :: World where
  "example_world =
     \<lparr>api_key = True, md5 = (\<lambda>s. s), py_hash = (\<lambda>s. s),
      embeddings_api = (\<lambda>t. Inr [1, 0]),
      chat_api = (\<lambda>s u. Inr (''Python and Django.'', 120)),
      cache_get_fails = False, cache_set_fails = False,
      db_read_fails = False, db_write_fails = False, elapsed = 1 / 4\<rparr>"

definition example_state :: State where
  "example_state =
     \<lparr>cache = Map.empty, now = 0,
      document_chunks = [example_chunk 10 [1, 0], example_chunk 20 [0, 1], example_chunk 30 [1]],
      embedding_cache = [], rag_queries = [], jobs = []\<rparr>"

definition example_rag_service :: OptimizedRAGService where
  "example_rag_service =
     \<lparr>client = True, embedding_service = default_service char_encode char_decode,
      model = ''gpt-3.5-turbo'', max_context_tokens = 4000, max_chunks = 5,
      similarity_threshold = 7 / 10, batch_size = 100\<rparr>"

definition example_legacy_service :: RAGService where
  "example_legacy_service =
     \<lparr>rs_embedding_service = default_service char_encode char_decode,
      rs_max_chunks = 5, rs_similarity_threshold = 7 / 10\<rparr>"




section \<open>The chunker: proofs\<close>

lemma py_slice_window:
  "0 \<le> c \<Longrightarrow> py_slice xs (int s) (int s + c) = take (nat c) (drop s xs)"
  by (cases "s \<le> length xs") (auto simp: py_slice_def slice_bound_def Let_def min_def nat_add_distrib)

lemma chunk_loop_windows:
  assumes "0 \<le> ov" "ov < cs"
  shows "chunk_loop cs ov tokens (int s) acc = Some (acc @ windows_from (nat cs) (nat ov) tokens s)"
proof (induction "length tokens - s" arbitrary: s acc rule: less_induct)
  case less
  show ?case
  proof (cases "s < length tokens")
    case False
    then show ?thesis by (subst chunk_loop.simps, subst windows_from.simps) simp
  next
    case True
    let ?s1 = "s + nat cs - nat ov"
    have s1: "int s + cs - ov = int ?s1" using assms by simp
    have dec: "length tokens - ?s1 < length tokens - s" using True assms by simp
    have sl: "py_slice tokens (int s) (int s + cs) = take (nat cs) (drop s tokens)"
      using assms by (simp add: py_slice_window)
    have w: "windows_from (nat cs) (nat ov) tokens s =
             take (nat cs) (drop s tokens) # windows_from (nat cs) (nat ov) tokens ?s1"
      using True assms by (subst windows_from.simps) simp
    show ?thesis
    proof (cases "?s1 < length tokens")
      case True2: True
      have "chunk_loop cs ov tokens (int s) acc =
            chunk_loop cs ov tokens (int ?s1) (acc @ [take (nat cs) (drop s tokens)])"
        using True True2 by (subst chunk_loop.simps) (simp add: Let_def sl s1 del: of_nat_diff of_nat_add)
      also have "\<dots> = Some ((acc @ [take (nat cs) (drop s tokens)]) @ windows_from (nat cs) (nat ov) tokens ?s1)"
        by (rule less.hyps [OF dec])
      finally show ?thesis by (simp add: w)
    next
      case False2: False
      have e: "windows_from (nat cs) (nat ov) tokens ?s1 = []"
        using False2 by (subst windows_from.simps) simp
      have "chunk_loop cs ov tokens (int s) acc = Some (acc @ [take (nat cs) (drop s tokens)])"
        using True False2 by (subst chunk_loop.simps) (simp add: Let_def sl s1 del: of_nat_diff of_nat_add)
      then show ?thesis by (simp add: w e)
    qed
  qed
qed


lemma windows_from_nth:
  "ov < cs \<Longrightarrow> i < length (windows_from cs ov ts s) \<Longrightarrow>
     windows_from cs ov ts s ! i = take cs (drop (s + i * (cs - ov)) ts) \<and> s + i * (cs - ov) < length ts"
proof (induction cs ov ts s arbitrary: i rule: windows_from.induct)
  case (1 cs ov ts s)
  show ?case
  proof (cases "s < length ts")
    case False
    then have "windows_from cs ov ts s = []" by (subst windows_from.simps) simp
    with 1(3) show ?thesis by simp
  next
    case True
    have w: "windows_from cs ov ts s = take cs (drop s ts) # windows_from cs ov ts (s + cs - ov)"
      using True 1(2) by (subst windows_from.simps) simp
    show ?thesis
    proof (cases i)
      case 0
      then show ?thesis using True by (simp add: w)
    next
      case (Suc j)
      have "j < length (windows_from cs ov ts (s + cs - ov))" using 1(3) Suc by (simp add: w)
      from 1(1) [OF _ 1(2) this] True 1(2)
      have "windows_from cs ov ts (s + cs - ov) ! j = take cs (drop (s + cs - ov + j * (cs - ov)) ts)
            \<and> s + cs - ov + j * (cs - ov) < length ts" by simp
      moreover have "s + cs - ov + j * (cs - ov) = s + Suc j * (cs - ov)" using 1(2) by simp
      ultimately show ?thesis using Suc by (simp add: w)
    qed
  qed
qed

lemma windows_from_length_iff:
  "ov < cs \<Longrightarrow> (i < length (windows_from cs ov ts s)) = (s + i * (cs - ov) < length ts)"
proof (induction cs ov ts s arbitrary: i rule: windows_from.induct)
  case (1 cs ov ts s)
  show ?case
  proof (cases "s < length ts")
    case False
    then have "windows_from cs ov ts s = []" by (subst windows_from.simps) simp
    with False show ?thesis by simp
  next
    case True
    have w: "windows_from cs ov ts s = take cs (drop s ts) # windows_from cs ov ts (s + cs - ov)"
      using True 1(2) by (subst windows_from.simps) simp
    show ?thesis
    proof (cases i)
      case 0
      then show ?thesis using True by (simp add: w)
    next
      case (Suc j)
      have e: "s + cs - ov + j * (cs - ov) = s + Suc j * (cs - ov)" using 1(2) by simp
      from 1(1) [OF _ 1(2), of j] True 1(2)
      have "(j < length (windows_from cs ov ts (s + cs - ov))) = (s + cs - ov + j * (cs - ov) < length ts)"
        by simp
      then show ?thesis using Suc e by (simp add: w)
    qed
  qed
qed


lemma windows_from_nonempty:
  "ov < cs \<Longrightarrow> w \<in> set (windows_from cs ov ts s) \<Longrightarrow> w \<noteq> []"
proof -
  assume o: "ov < cs" and m: "w \<in> set (windows_from cs ov ts s)"
  then obtain i where i: "i < length (windows_from cs ov ts s)" and w: "w = windows_from cs ov ts s ! i"
    by (auto simp: in_set_conv_nth)
  from windows_from_nth [OF o i] o show ?thesis by (simp add: w)
qed

lemma chunk_windows_closed:
  assumes "0 \<le> chunk_overlap svc" "chunk_overlap svc < chunk_size svc"
  shows "chunk_windows svc tokens =
         Some (windows_from (nat (chunk_size svc)) (nat (chunk_overlap svc)) tokens 0)"
  using chunk_loop_windows [OF assms, of tokens 0 "[]"] by (simp add: chunk_windows_def)


subsection \<open>C3: overlap of consecutive chunks\<close>




subsection \<open>C6: a text that fits one chunk\<close>

text \<open>
  C6 as stated fails at the empty text: it has no tokens, so it fits one chunk, yet
  the guard at the top of \<open>chunk_text\<close> returns no chunk at all instead of the
  one-element sequence holding the normalized text.
\<close>

theorem chunk_text_empty_input:
  "int (length (encode (default_service char_encode char_decode)
                  (clean_text (default_service char_encode char_decode) ''''))) 
     \<le> chunk_size (default_service char_encode char_decode)
   \<and> chunk_text (default_service char_encode char_decode) '''' = Some []
   \<and> chunk_text (default_service char_encode char_decode) ''''
       \<noteq> Some [clean_text (default_service char_encode char_decode) '''']"
  by (simp add: chunk_text_def clean_text_def default_service_def char_encode_def)

text \<open>
  C6, amended. The empty text gives no chunk. A text whose normalized form is not
  empty and has at most \<open>chunk_size\<close> tokens gives exactly the normalized text.
  Whenever the normalized form is not empty (and the overlap is non-negative and
  smaller than the chunk size, and the tokenizer decodes no non-empty token
  sequence to the empty string), chunking returns at least one chunk and no chunk
  is the empty string.
\<close>

theorem chunk_text_single_and_nonempty:
  "chunk_text svc [] = Some [] \<and>
   (clean_text svc text \<noteq> [] \<and> int (length (encode svc (clean_text svc text))) \<le> chunk_size svc
      \<longrightarrow> chunk_text svc text = Some [clean_text svc text]) \<and>
   (clean_text svc text \<noteq> [] \<and> 0 \<le> chunk_overlap svc \<and> chunk_overlap svc < chunk_size svc
      \<and> (\<forall>ts. ts \<noteq> [] \<longrightarrow> decode svc ts \<noteq> [])
      \<longrightarrow> (\<exists>chunks. chunk_text svc text = Some chunks \<and> chunks \<noteq> [] \<and> [] \<notin> set chunks))"
proof (intro conjI impI)
  show "chunk_text svc [] = Some []" by (simp add: chunk_text_def)
next
  assume a: "clean_text svc text \<noteq> [] \<and> int (length (encode svc (clean_text svc text))) \<le> chunk_size svc"
  then have "text \<noteq> []" by (auto simp: clean_text_def)
  with a show "chunk_text svc text = Some [clean_text svc text]"
    by (simp add: chunk_text_def Let_def)
next
  assume a: "clean_text svc text \<noteq> [] \<and> 0 \<le> chunk_overlap svc \<and> chunk_overlap svc < chunk_size svc
      \<and> (\<forall>ts. ts \<noteq> [] \<longrightarrow> decode svc ts \<noteq> [])"
  then have t: "text \<noteq> []" by (auto simp: clean_text_def)
  define tokens where "tokens = encode svc (clean_text svc text)"
  define cs where "cs = nat (chunk_size svc)"
  define ov where "ov = nat (chunk_overlap svc)"
  have o: "ov < cs" using a by (simp add: cs_def ov_def)
  show "\<exists>chunks. chunk_text svc text = Some chunks \<and> chunks \<noteq> [] \<and> [] \<notin> set chunks"
  proof (cases "int (length tokens) \<le> chunk_size svc")
    case True
    then have "chunk_text svc text = Some [clean_text svc text]"
      using t by (simp add: chunk_text_def Let_def tokens_def)
    then show ?thesis using a by auto
  next
    case False
    have run: "chunk_windows svc tokens = Some (windows_from cs ov tokens 0)"
      using chunk_windows_closed [of svc tokens] a by (simp add: cs_def ov_def)
    have ct: "chunk_text svc text = Some (map (decode svc) (windows_from cs ov tokens 0))"
      using t False run by (simp add: chunk_text_def Let_def tokens_def)
    have "0 + 0 * (cs - ov) < length tokens" using False a by auto
    then have "0 < length (windows_from cs ov tokens 0)"
      using windows_from_length_iff [OF o, of 0 tokens 0] by simp
    then have ne: "map (decode svc) (windows_from cs ov tokens 0) \<noteq> []" by simp
    have "[] \<notin> set (map (decode svc) (windows_from cs ov tokens 0))"
    proof
      assume "[] \<in> set (map (decode svc) (windows_from cs ov tokens 0))"
      then obtain w where w: "w \<in> set (windows_from cs ov tokens 0)" and d: "decode svc w = []"
        by auto
      from windows_from_nonempty [OF o w] a have "decode svc w \<noteq> []" by simp
      with d show False by simp
    qed
    with ct ne show ?thesis by simp
  qed
qed

text \<open>The amended C6 at a short text with surplus whitespace.\<close>

theorem chunk_text_single_and_nonempty_witness:
  "chunk_text (default_service char_encode char_decode) [] = Some [] \<and>
   clean_text (default_service char_encode char_decode) '' a  b '' = ''a b'' \<and>
   clean_text (default_service char_encode char_decode) '' a  b '' \<noteq> [] \<and>
   int (length (encode (default_service char_encode char_decode)
         (clean_text (default_service char_encode char_decode) '' a  b '')))
      \<le> chunk_size (default_service char_encode char_decode) \<and>
   chunk_text (default_service char_encode char_decode) '' a  b '' = Some [''a b''] \<and>
   0 \<le> chunk_overlap (default_service char_encode char_decode) \<and>
   chunk_overlap (default_service char_encode char_decode) < chunk_size (default_service char_encode char_decode) \<and>
   decode (default_service char_encode char_decode) [97] \<noteq> [] \<and>
   (\<exists>chunks. chunk_text (default_service char_encode char_decode) '' a  b '' = Some chunks
       \<and> chunks \<noteq> [] \<and> [] \<notin> set chunks)"
proof -
  let ?svc = "default_service char_encode char_decode"
  have c: "clean_text ?svc '' a  b '' = ''a b''"
    by (simp add: clean_text_def default_service_def strip_def is_space_def char_encode_def Let_def)
  have h1: "clean_text ?svc '' a  b '' \<noteq> []" by (simp add: c)
  have h2: "int (length (encode ?svc (clean_text ?svc '' a  b ''))) \<le> chunk_size ?svc"
    by (simp add: c) (simp add: default_service_def char_encode_def)
  have h3: "0 \<le> chunk_overlap ?svc \<and> chunk_overlap ?svc < chunk_size ?svc"
    by (simp add: default_service_def)
  have h4: "\<forall>ts. ts \<noteq> [] \<longrightarrow> decode ?svc ts \<noteq> []"
    by (simp add: default_service_def char_decode_def)
  show ?thesis
    using chunk_text_single_and_nonempty [of ?svc "'' a  b ''"] c h1 h2 h3 h4
    by simp
qed

section \<open>Similarity search: proofs\<close>

lemma map2_mult_commute: "map2 (*) a b = map2 (*) b (a :: real list)"
  by (induction a b rule: list_induct2') simp_all

lemma linalg_norm_nonneg: "0 \<le> linalg_norm v"
proof -
  have "0 \<le> sum_list (map (\<lambda>x. x * x) v)"
    by (rule sum_list_nonneg) auto
  then show ?thesis by (simp add: linalg_norm_def)
qed

lemma norm_product_pos:
  "(0 < linalg_norm a * linalg_norm b) = (\<not> (linalg_norm b = 0 \<or> linalg_norm a = 0))"
  using linalg_norm_nonneg [of a] linalg_norm_nonneg [of b]
  by (auto simp: zero_less_mult_iff less_le)

lemma row_similarity_cosine:
  "length e = length q \<Longrightarrow> row_similarity q e = Inr (cosine_similarity q e)"
  by (simp add: row_similarity_def cosine_similarity_def cosine_similarity_body_def np_dot_def
      Let_def true_div_def norm_product_pos map2_mult_commute [of e q] mult.commute)

lemma collect_all_Inr: "collect (map Inr xs) = Inr xs"
  by (induction xs) simp_all

lemma vectorized_cosine:
  assumes "list_all (\<lambda>e. length e = length q) es"
  shows "vectorized_similarities q es = Inr (map (cosine_similarity q) es)"
proof -
  have "map (row_similarity q) es = map Inr (map (cosine_similarity q) es)"
    using assms by (auto simp: list_all_iff row_similarity_cosine)
  then show ?thesis by (simp only: vectorized_similarities_def collect_all_Inr)
qed

lemma process_batch_eq:
  "process_batch q batch =
     map (\<lambda>c. (c, cosine_similarity q (get_embedding_vector c)))
       (filter (\<lambda>c. get_embedding_vector c \<noteq> [] \<and> length (get_embedding_vector c) = length q) batch)"
proof -
  let ?valid = "filter (\<lambda>c. get_embedding_vector c \<noteq> [] \<and> length (get_embedding_vector c) = length q) batch"
  have "list_all (\<lambda>e. length e = length q) (map get_embedding_vector ?valid)"
    by (simp add: list_all_iff)
  then have "vectorized_similarities q (map get_embedding_vector ?valid)
             = Inr (map (cosine_similarity q) (map get_embedding_vector ?valid))"
    by (rule vectorized_cosine)
  then show ?thesis
    by (simp add: process_batch_def Let_def zip_map2 zip_same_conv_map comp_def)
qed

lemma concat_batches: "0 < n \<Longrightarrow> concat (batches n xs) = xs"
proof (induction n xs rule: batches.induct)
  case (1 n xs)
  then show ?case by (subst batches.simps) simp
qed

lemma batch_calculate_positive:
  assumes "0 < bsize"
  shows "batch_calculate_similarities bsize q chunks =
     Inr (map (\<lambda>c. (c, cosine_similarity q (get_embedding_vector c)))
       (filter (\<lambda>c. get_embedding_vector c \<noteq> [] \<and> length (get_embedding_vector c) = length q) chunks))"
proof -
  have n: "0 < nat bsize" using assms by simp
  have "concat (map (process_batch q) (batches (nat bsize) chunks)) =
        map (\<lambda>c. (c, cosine_similarity q (get_embedding_vector c)))
         (filter (\<lambda>c. get_embedding_vector c \<noteq> [] \<and> length (get_embedding_vector c) = length q)
            (concat (batches (nat bsize) chunks)))"
    by (simp add: process_batch_eq [abs_def] map_concat filter_concat comp_def)
  then show ?thesis using assms by (simp add: batch_calculate_similarities_def concat_batches [OF n])
qed

lemma batch_calculate_members:
  assumes "batch_calculate_similarities bsize q chunks = Inr sims" "(c, s) \<in> set sims"
  shows "c \<in> set chunks \<and> s = cosine_similarity q (get_embedding_vector c)
         \<and> length (get_embedding_vector c) = length q"
proof (cases "0 < bsize")
  case True
  from assms show ?thesis unfolding batch_calculate_positive [OF True] by auto
next
  case False
  with assms show ?thesis by (auto simp: batch_calculate_similarities_def split: if_splits)
qed

lemma cache_set_tables:
  "cache_set w st k v t = Inr st1 \<Longrightarrow> document_chunks st1 = document_chunks st"
  by (auto simp: cache_set_def split: if_splits)

lemma cache_embedding_json_tables:
  "document_chunks (cache_embedding_json w st k v) = document_chunks st"
  by (simp add: cache_embedding_json_def cache_set_tables split: sum.splits)

lemma create_embedding_tables:
  "document_chunks (snd (create_embedding es w st q)) = document_chunks st"
proof (cases "api_key w")
  case False
  then show ?thesis by (simp add: create_embedding_def)
next
  case True
  show ?thesis
  proof (cases "get_cached_embedding_json w st (md5 w q)")
    case None
    then show ?thesis using True
      by (simp add: create_embedding_def Let_def cache_embedding_json_tables split: sum.splits)
  next
    case (Some v)
    then show ?thesis using True
      by (cases v) (simp_all add: create_embedding_def Let_def cache_embedding_json_tables split: sum.splits)
  qed
qed

lemma sorted_sort_desc: "sorted (map (\<lambda>p. - snd p) (sort_desc xs))"
  by (simp add: sort_desc_def)

lemma set_sort_desc: "set (sort_desc xs) = set xs"
  by (simp add: sort_desc_def)

lemma sorted_map_take: "sorted (map f xs) \<Longrightarrow> sorted (map f (take n xs))"
  by (simp add: take_map [symmetric] sorted_wrt_take)

lemma sorted_map_filter: "sorted (map f xs) \<Longrightarrow> sorted (map f (filter P xs))"
  by (rule sorted_filter)

lemma search_result_ok_Nil: "search_result_ok threshold limit table q []"
  by (simp add: search_result_ok_def)

lemma search_result_okI:
  assumes sub: "set ranked \<subseteq> set sims"
    and thr: "\<And>c s. (c, s) \<in> set ranked \<Longrightarrow> s \<ge> threshold"
    and sims: "\<And>c s. (c, s) \<in> set sims \<Longrightarrow>
                 c \<in> set table \<and> s = cosine_similarity qv (get_embedding_vector c)"
    and srt: "sorted (map (\<lambda>p. - snd p) ranked)"
    and len: "length ranked \<le> limit"
  shows "search_result_ok threshold limit table (Some qv) ranked"
proof -
  have mem: "s \<ge> threshold \<and> c \<in> set table \<and> s = cosine_similarity qv (get_embedding_vector c)"
    if "(c, s) \<in> set ranked" for c s
    using that sub thr sims by blast
  have a: "list_all (\<lambda>(c, s). s \<ge> threshold \<and> c \<in> set table
                  \<and> (case Some qv of None \<Rightarrow> False
                      | Some qv \<Rightarrow> s = cosine_similarity qv (get_embedding_vector c))) ranked"
    unfolding list_all_iff using mem by (simp add: split_beta) (metis prod.collapse)
  have b: "ranked = []"
    if h: "list_all (\<lambda>c. case Some qv of None \<Rightarrow> True
                        | Some qv \<Rightarrow> cosine_similarity qv (get_embedding_vector c) < threshold) table"
  proof (cases ranked)
    case Nil
    then show ?thesis .
  next
    case (Cons p ps)
    obtain c s where p: "p = (c, s)" by (cases p)
    have m: "(c, s) \<in> set ranked" using Cons p by simp
    from mem [OF m] have 1: "s \<ge> threshold" and 2: "c \<in> set table"
      and 3: "s = cosine_similarity qv (get_embedding_vector c)" by simp_all
    from h 2 have "cosine_similarity qv (get_embedding_vector c) < threshold"
      by (simp add: list_all_iff)
    with 1 3 show ?thesis by simp
  qed
  show ?thesis unfolding search_result_ok_def using a b srt len by blast
qed

lemma take_subset: "set (take n xs) \<subseteq> set xs"
  by (rule set_take_subset)

lemma candidate_chunks_subset: "set (candidate_chunks st ct sid limit) \<subseteq> set (document_chunks st)"
proof -
  let ?q0 = "filter (\<lambda>c. is_active c \<and> embedding c \<noteq> EmptyText) (document_chunks st)"
  let ?q1 = "if truthy ct then filter (\<lambda>c. source_type c = the ct) ?q0 else ?q0"
  let ?q2 = "if truthy sid then filter (\<lambda>c. source_id c = the sid) ?q1 else ?q1"
  have 0: "set ?q0 \<subseteq> set (document_chunks st)" by simp
  have 1: "set ?q1 \<subseteq> set ?q0" by auto
  have 2: "set ?q2 \<subseteq> set ?q1" by auto
  have "set (candidate_chunks st ct sid limit) \<subseteq> set (sort_key (\<lambda>c. - int (created_at c)) ?q2)"
    unfolding candidate_chunks_def Let_def by (rule set_take_subset)
  also have "\<dots> = set ?q2" by simp
  finally show ?thesis using 0 1 2 by blast
qed

lemma legacy_candidates_subset: "set (legacy_candidates st ct sid) \<subseteq> set (document_chunks st)"
proof -
  let ?q0 = "document_chunks st"
  let ?q1 = "if truthy ct then filter (\<lambda>c. source_type c = the ct) ?q0 else ?q0"
  let ?q2 = "if truthy sid then filter (\<lambda>c. source_id c = the sid) ?q1 else ?q1"
  have 1: "set ?q1 \<subseteq> set ?q0" by auto
  have 2: "set ?q2 \<subseteq> set ?q1" by auto
  have "set (legacy_candidates st ct sid) \<subseteq> set ?q2"
    unfolding legacy_candidates_def Let_def by (rule set_take_subset)
  then show ?thesis using 1 2 by blast
qed

lemma legacy_similarities_members:
  "(c, s) \<in> set (legacy_similarities q chunks) \<Longrightarrow>
     c \<in> set chunks \<and> s = cosine_similarity q (get_embedding_vector c)"
proof (induction chunks)
  case Nil
  then show ?case by simp
next
  case (Cons a chunks)
  then show ?case
    by (cases "embedding a") (auto simp: get_embedding_vector_def)
qed

lemma scored_search_failed_embedding:
  assumes "create_embedding (embedding_service svc) w st qtext = (Inl e, st1)"
  shows "fst (scored_similarity_search svc w st qtext ct sid limit) = []"
  by (simp add: scored_similarity_search_def similarity_search_body_def assms)

lemma scored_search_unfold:
  assumes "create_embedding (embedding_service svc) w st qtext = (Inr qv, st1)"
    and "batch_calculate_similarities (batch_size svc) qv (candidate_chunks st1 ct sid limit) = Inr sims"
  shows "fst (scored_similarity_search svc w st qtext ct sid limit) =
           take limit (sort_desc (filter (\<lambda>(chunk, similarity). similarity \<ge> similarity_threshold svc) sims))
         \<or> fst (scored_similarity_search svc w st qtext ct sid limit) = []"
  by (simp add: scored_similarity_search_def similarity_search_body_def assms Let_def)

lemma scored_search_failed_batch:
  assumes "create_embedding (embedding_service svc) w st qtext = (Inr qv, st1)"
    and "batch_calculate_similarities (batch_size svc) qv (candidate_chunks st1 ct sid limit) = Inl e"
  shows "fst (scored_similarity_search svc w st qtext ct sid limit) = []"
  by (simp add: scored_similarity_search_def similarity_search_body_def assms Let_def)

lemma ranked_subset:
  "set (take limit (sort_desc (filter P sims))) \<subseteq> set (filter P sims)"
  using set_take_subset [of limit "sort_desc (filter P sims)"] by (simp only: set_sort_desc)

lemma optimized_search_ok:
  "search_result_ok (similarity_threshold svc) limit (document_chunks st)
     (query_vector (embedding_service svc) w st qtext)
     (fst (scored_similarity_search svc w st qtext ct sid limit))"
proof (cases "create_embedding (embedding_service svc) w st qtext")
  case (Pair r st1)
  have tab: "document_chunks st1 = document_chunks st"
    using create_embedding_tables [of "embedding_service svc" w st qtext] Pair by simp
  show ?thesis
  proof (cases r)
    case (Inl e)
    with Pair have "create_embedding (embedding_service svc) w st qtext = (Inl e, st1)" by simp
    from scored_search_failed_embedding [OF this] show ?thesis
      by (simp only: search_result_ok_Nil)
  next
    case (Inr qv)
    with Pair have ce: "create_embedding (embedding_service svc) w st qtext = (Inr qv, st1)" by simp
    have q: "query_vector (embedding_service svc) w st qtext = Some qv"
      by (simp add: query_vector_def ce)
    let ?chunks = "candidate_chunks st1 ct sid limit"
    show ?thesis
    proof (cases "batch_calculate_similarities (batch_size svc) qv ?chunks")
      case bad: (Inl e)
      from scored_search_failed_batch [OF ce bad] show ?thesis
        by (simp only: search_result_ok_Nil)
    next
      case good: (Inr sims)
      let ?P = "\<lambda>(chunk, similarity). similarity \<ge> similarity_threshold svc"
      let ?ranked = "take limit (sort_desc (filter ?P sims))"
      have sub: "set ?ranked \<subseteq> set (filter ?P sims)" by (rule ranked_subset)
      have ok: "search_result_ok (similarity_threshold svc) limit (document_chunks st) (Some qv) ?ranked"
      proof (rule search_result_okI [where sims = sims])
        show "set ?ranked \<subseteq> set sims" using sub by auto
        show "s \<ge> similarity_threshold svc" if "(c, s) \<in> set ?ranked" for c s
          using sub that by auto
        show "c \<in> set (document_chunks st) \<and> s = cosine_similarity qv (get_embedding_vector c)"
          if "(c, s) \<in> set sims" for c s
        proof -
          from batch_calculate_members [OF good that]
          have 1: "c \<in> set (candidate_chunks st1 ct sid limit)"
            and 2: "s = cosine_similarity qv (get_embedding_vector c)" by simp_all
          from 1 candidate_chunks_subset [of st1 ct sid limit] have "c \<in> set (document_chunks st1)" ..
          then show ?thesis using 2 by (simp only: tab)
        qed
        show "sorted (map (\<lambda>p. - snd p) ?ranked)"
          by (intro sorted_map_take sorted_sort_desc)
        show "length ?ranked \<le> limit" by simp
      qed
      from scored_search_unfold [OF ce good] show ?thesis
      proof
        assume "fst (scored_similarity_search svc w st qtext ct sid limit) = ?ranked"
        then show ?thesis using ok by (simp only: q)
      next
        assume "fst (scored_similarity_search svc w st qtext ct sid limit) = []"
        then show ?thesis by (simp only: search_result_ok_Nil)
      qed
    qed
  qed
qed

lemma legacy_search_failed_embedding:
  assumes "create_embedding (rs_embedding_service svc) w st qtext = (Inl e, st1)"
  shows "fst (scored_relevant_chunks svc w st qtext ct sid mx) = []"
  by (simp add: scored_relevant_chunks_def assms)

lemma legacy_search_unfold:
  assumes "create_embedding (rs_embedding_service svc) w st qtext = (Inr qv, st1)"
  shows "fst (scored_relevant_chunks svc w st qtext ct sid mx) =
           filter (\<lambda>(chunk, sim). sim \<ge> rs_similarity_threshold svc)
             (take mx (sort_desc (legacy_similarities qv (legacy_candidates st1 ct sid))))
         \<or> fst (scored_relevant_chunks svc w st qtext ct sid mx) = []"
  by (simp add: scored_relevant_chunks_def assms Let_def)

lemma legacy_search_ok:
  "search_result_ok (rs_similarity_threshold svc) mx (document_chunks st)
     (query_vector (rs_embedding_service svc) w st qtext)
     (fst (scored_relevant_chunks svc w st qtext ct sid mx))"
proof (cases "create_embedding (rs_embedding_service svc) w st qtext")
  case (Pair r st1)
  have tab: "document_chunks st1 = document_chunks st"
    using create_embedding_tables [of "rs_embedding_service svc" w st qtext] Pair by simp
  show ?thesis
  proof (cases r)
    case (Inl e)
    with Pair have "create_embedding (rs_embedding_service svc) w st qtext = (Inl e, st1)" by simp
    from legacy_search_failed_embedding [OF this] show ?thesis
      by (simp only: search_result_ok_Nil)
  next
    case (Inr qv)
    with Pair have ce: "create_embedding (rs_embedding_service svc) w st qtext = (Inr qv, st1)" by simp
    have q: "query_vector (rs_embedding_service svc) w st qtext = Some qv"
      by (simp add: query_vector_def ce)
    let ?sims = "legacy_similarities qv (legacy_candidates st1 ct sid)"
    let ?P = "\<lambda>(chunk, sim). sim \<ge> rs_similarity_threshold svc"
    let ?ranked = "filter ?P (take mx (sort_desc ?sims))"
    have sub0: "set (take mx (sort_desc ?sims)) \<subseteq> set ?sims"
      using set_take_subset [of mx "sort_desc ?sims"] by (simp only: set_sort_desc)
    have ok: "search_result_ok (rs_similarity_threshold svc) mx (document_chunks st) (Some qv) ?ranked"
    proof (rule search_result_okI [where sims = ?sims])
      show "set ?ranked \<subseteq> set ?sims" using sub0 by auto
      show "s \<ge> rs_similarity_threshold svc" if "(c, s) \<in> set ?ranked" for c s
        using that by auto
      show "c \<in> set (document_chunks st) \<and> s = cosine_similarity qv (get_embedding_vector c)"
        if "(c, s) \<in> set ?sims" for c s
      proof -
        from legacy_similarities_members [OF that]
        have 1: "c \<in> set (legacy_candidates st1 ct sid)"
          and 2: "s = cosine_similarity qv (get_embedding_vector c)" by simp_all
        from 1 legacy_candidates_subset [of st1 ct sid] have "c \<in> set (document_chunks st1)" ..
        then show ?thesis using 2 by (simp only: tab)
      qed
      show "sorted (map (\<lambda>p. - snd p) ?ranked)"
        by (intro sorted_map_filter sorted_map_take sorted_sort_desc)
      have "length ?ranked \<le> length (take mx (sort_desc ?sims))" by (rule length_filter_le)
      then show "length ?ranked \<le> mx" by simp
    qed
    from legacy_search_unfold [OF ce] show ?thesis
    proof
      assume "fst (scored_relevant_chunks svc w st qtext ct sid mx) = ?ranked"
      then show ?thesis using ok by (simp only: q)
    next
      assume "fst (scored_relevant_chunks svc w st qtext ct sid mx) = []"
      then show ?thesis by (simp only: search_result_ok_Nil)
    qed
  qed
qed

lemma ex_embed:
  "create_embedding (default_service char_encode char_decode) example_world example_state ''skills''
   = (Inr [1, 0], example_state\<lparr>cache := (cache example_state)(''embedding_skills'' \<mapsto> (EmbeddingJson [1, 0], 604800))\<rparr>)"
  by (simp add: create_embedding_def example_world_def example_state_def get_cached_embedding_json_def
      cache_get_def cache_embedding_json_def cache_set_def clean_text_def default_service_def
      strip_def is_space_def char_encode_def Let_def)

lemma ex_norms: "linalg_norm [1, 0] = 1" "linalg_norm [0, 1] = 1" "linalg_norm [0, 0] = 0"
  by (simp_all add: linalg_norm_def)

lemma ex_cos: "cosine_similarity [1, 0] [1, 0] = 1" "cosine_similarity [1, 0] [0, 1] = 0"
  by (simp_all add: cosine_similarity_def cosine_similarity_body_def np_dot_def ex_norms true_div_def)

lemma ex_batch:
  "batch_calculate_similarities 100 [1, 0] [example_chunk 30 [1], example_chunk 20 [0, 1], example_chunk 10 [1, 0]]
   = Inr [(example_chunk 20 [0, 1], 0), (example_chunk 10 [1, 0], 1)]"
  by (simp add: batch_calculate_positive get_embedding_vector_def example_chunk_def ex_cos)

subsection \<open>C1: similarity search is thresholded, sorted and limited\<close>

text \<open>
  C1. For every query, chunk table, threshold and limit, both similarity searches
  (\<open>optimized_similarity_search\<close> and \<open>RAGService._get_relevant_chunks\<close>) return
  only chunks of the table whose cosine similarity to the query vector is at least
  the threshold, in descending order of score, at most \<open>limit\<close> of them; and when
  no chunk of the table reaches the threshold (or no query vector can be made) they
  return the empty list. They are total functions: every exception of the body ends
  in the handler that returns the empty list.
\<close>

theorem similarity_search_threshold_sorted_limited:
  "search_result_ok (similarity_threshold svc) limit (document_chunks st)
     (query_vector (embedding_service svc) w st qtext)
     (fst (scored_similarity_search svc w st qtext ct sid limit))
   \<and> fst (optimized_similarity_search svc w st qtext ct sid limit)
       = map fst (fst (scored_similarity_search svc w st qtext ct sid limit))
   \<and> search_result_ok (rs_similarity_threshold rsvc) mx (document_chunks st)
       (query_vector (rs_embedding_service rsvc) w st qtext)
       (fst (scored_relevant_chunks rsvc w st qtext ct sid mx))
   \<and> fst (get_relevant_chunks rsvc w st qtext ct sid mx)
       = map fst (fst (scored_relevant_chunks rsvc w st qtext ct sid mx))"
proof (intro conjI)
  show "fst (optimized_similarity_search svc w st qtext ct sid limit)
       = map fst (fst (scored_similarity_search svc w st qtext ct sid limit))"
    by (simp add: optimized_similarity_search_def split: prod.splits)
  show "fst (get_relevant_chunks rsvc w st qtext ct sid mx)
       = map fst (fst (scored_relevant_chunks rsvc w st qtext ct sid mx))"
    by (simp add: get_relevant_chunks_def split: prod.splits)
qed (rule optimized_search_ok legacy_search_ok)+

lemma ex_candidates:
  "candidate_chunks (example_state\<lparr>cache := c\<rparr>) None None 5
   = [example_chunk 30 [1], example_chunk 20 [0, 1], example_chunk 10 [1, 0]]"
  by (simp add: candidate_chunks_def example_state_def example_chunk_def truthy_def)

lemma ex_scored:
  "fst (scored_similarity_search example_rag_service example_world example_state ''skills'' None None 5)
   = [(example_chunk 10 [1, 0], 1)]"
  by (simp add: scored_similarity_search_def similarity_search_body_def example_rag_service_def
      ex_embed ex_candidates ex_batch sort_desc_def)
     (simp add: example_world_def)

lemma ex_embed_gen:
  "cache st = Map.empty \<Longrightarrow> now st = 0 \<Longrightarrow>
   create_embedding (default_service char_encode char_decode) example_world st ''skills''
   = (Inr [1, 0], st\<lparr>cache := (cache st)(''embedding_skills'' \<mapsto> (EmbeddingJson [1, 0], 604800))\<rparr>)"
  by (simp add: create_embedding_def example_world_def get_cached_embedding_json_def
      cache_get_def cache_embedding_json_def cache_set_def clean_text_def default_service_def
      strip_def is_space_def char_encode_def Let_def)

lemma ex_cos_mismatch: "cosine_similarity [1, 0] [1] = 0"
  by (simp add: cosine_similarity_def cosine_similarity_body_def np_dot_def)

text \<open>
  C1 at the concrete table: one chunk clears the threshold 0.7 and is returned; with
  that chunk removed no chunk clears it and the search returns the empty list.
\<close>

theorem similarity_search_threshold_sorted_limited_witness:
  "fst (scored_similarity_search example_rag_service example_world example_state ''skills'' None None 5)
     = [(example_chunk 10 [1, 0], 1)]
   \<and> search_result_ok (7 / 10) 5 (document_chunks example_state) (Some [1, 0])
        [(example_chunk 10 [1, 0], 1)]
   \<and> map chunk_id (fst (optimized_similarity_search example_rag_service example_world example_state
        ''skills'' None None 5)) = [10]
   \<and> list_all (\<lambda>c. cosine_similarity [1, 0] (get_embedding_vector c) < 7 / 10)
        [example_chunk 20 [0, 1], example_chunk 30 [1]]
   \<and> fst (optimized_similarity_search example_rag_service example_world
        (example_state\<lparr>document_chunks := [example_chunk 20 [0, 1], example_chunk 30 [1]]\<rparr>)
        ''skills'' None None 5) = []"
proof -
  let ?st2 = "example_state\<lparr>document_chunks := [example_chunk 20 [0, 1], example_chunk 30 [1]]\<rparr>"
  have qv: "query_vector (embedding_service example_rag_service) example_world example_state ''skills''
            = Some [1, 0]"
    by (simp add: query_vector_def example_rag_service_def ex_embed)
  have qv2: "query_vector (embedding_service example_rag_service) example_world ?st2 ''skills''
            = Some [1, 0]"
    by (simp add: query_vector_def example_rag_service_def ex_embed_gen example_state_def)
  have thr: "similarity_threshold example_rag_service = 7 / 10"
    by (simp add: example_rag_service_def)
  note t1 = similarity_search_threshold_sorted_limited
    [of example_rag_service 5 example_state example_world "''skills''" None None]
  note t2 = similarity_search_threshold_sorted_limited
    [of example_rag_service 5 ?st2 example_world "''skills''" None None]
  have a: "search_result_ok (7 / 10) 5 (document_chunks example_state) (Some [1, 0])
        [(example_chunk 10 [1, 0], 1)]"
    using t1 by (simp add: qv thr ex_scored)
  have b: "map chunk_id (fst (optimized_similarity_search example_rag_service example_world example_state
        ''skills'' None None 5)) = [10]"
    using t1 by (simp add: ex_scored example_chunk_def)
  have low: "list_all (\<lambda>c. cosine_similarity [1, 0] (get_embedding_vector c) < 7 / 10)
        [example_chunk 20 [0, 1], example_chunk 30 [1]]"
    by (simp add: get_embedding_vector_def example_chunk_def ex_cos ex_cos_mismatch)
  have "fst (scored_similarity_search example_rag_service example_world ?st2 ''skills'' None None 5) = []"
    using t2 low by (simp add: search_result_ok_def qv2 thr)
  then have c: "fst (optimized_similarity_search example_rag_service example_world ?st2
        ''skills'' None None 5) = []"
    using t2 by simp
  show ?thesis using ex_scored a b low c by simp
qed

subsection \<open>C5: cosine similarity is total; mismatched dimensions are dropped\<close>

text \<open>
  C5. Neither the pairwise cosine similarity nor a row of the batch computation ever
  divides by zero; when either vector has norm zero the similarity is 0. A batch
  computation with a positive batch size does not fail, and its result holds exactly
  the chunks whose embedding is non-empty and as long as the query vector, in their
  order: a chunk of another dimension is left out.
\<close>

theorem cosine_total_mismatch_dropped:
  "cosine_similarity_body a b \<noteq> Inl ZeroDivisionError
   \<and> row_similarity a b \<noteq> Inl ZeroDivisionError
   \<and> (linalg_norm a = 0 \<or> linalg_norm b = 0 \<longrightarrow>
        cosine_similarity a b = 0 \<and> (length a = length b \<longrightarrow> row_similarity a b = Inr 0))
   \<and> (0 < bsize \<longrightarrow>
        (\<exists>sims. batch_calculate_similarities bsize q chunks = Inr sims
           \<and> map fst sims =
               filter (\<lambda>c. get_embedding_vector c \<noteq> []
                            \<and> length (get_embedding_vector c) = length q) chunks))"
proof (intro conjI impI)
  show "cosine_similarity_body a b \<noteq> Inl ZeroDivisionError"
    by (simp add: cosine_similarity_body_def np_dot_def Let_def true_div_def)
  show "row_similarity a b \<noteq> Inl ZeroDivisionError"
    by (simp add: row_similarity_def np_dot_def Let_def true_div_def)
  show "cosine_similarity a b = 0" if "linalg_norm a = 0 \<or> linalg_norm b = 0"
    using that
    by (auto simp: cosine_similarity_def cosine_similarity_body_def np_dot_def Let_def)
  show "row_similarity a b = Inr 0" if "linalg_norm a = 0 \<or> linalg_norm b = 0" "length a = length b"
    using that by (auto simp: row_similarity_def np_dot_def Let_def)
  show "\<exists>sims. batch_calculate_similarities bsize q chunks = Inr sims
           \<and> map fst sims =
               filter (\<lambda>c. get_embedding_vector c \<noteq> []
                            \<and> length (get_embedding_vector c) = length q) chunks"
    if "0 < bsize"
    by (simp add: batch_calculate_positive [OF that] comp_def)
qed

text \<open>
  C5 at a zero vector, and at the concrete table, whose third chunk has a vector of
  another dimension.
\<close>

theorem cosine_total_mismatch_dropped_witness:
  "linalg_norm [0, 0] = 0
   \<and> cosine_similarity [0, 0] [1, 2] = 0
   \<and> row_similarity [0, 0] [1, 2] = Inr 0
   \<and> (0 :: int) < 100
   \<and> length (get_embedding_vector (example_chunk 30 [1])) \<noteq> length [1, 0 :: real]
   \<and> (\<exists>sims. batch_calculate_similarities 100 [1, 0] (document_chunks example_state) = Inr sims
         \<and> map fst sims = [example_chunk 10 [1, 0], example_chunk 20 [0, 1]])"
proof -
  have n: "linalg_norm [0, 0] = 0" by (rule ex_norms)
  have f: "filter (\<lambda>c. get_embedding_vector c \<noteq> [] \<and> length (get_embedding_vector c) = Suc (Suc 0))
             (document_chunks example_state) = [example_chunk 10 [1, 0], example_chunk 20 [0, 1]]"
    by (simp add: example_state_def get_embedding_vector_def example_chunk_def)
  have m: "length (get_embedding_vector (example_chunk 30 [1])) \<noteq> length [1, 0 :: real]"
    by (simp add: get_embedding_vector_def example_chunk_def)
  show ?thesis
    using cosine_total_mismatch_dropped [of "[0, 0]" "[1, 2]" 100 "[1, 0]" "document_chunks example_state"]
      n m by (simp add: f)
qed

section \<open>Confidence scoring: proofs\<close>












subsection \<open>C2: the confidence score\<close>





section \<open>Query-cache keys and the embedding cache\<close>

subsection \<open>Normalisation of the question\<close>

lemma is_space_lower_char: "is_space (lower_char c) = is_space c"
proof (cases "65 \<le> (of_char c :: nat) \<and> (of_char c :: nat) \<le> 90")
  case False
  then have "lower_char c = c" by (auto simp: lower_char_def Let_def)
  then show ?thesis by simp
next
  case True
  then have "(of_char (char_of ((of_char c :: nat) + 32)) :: nat) = of_char c + 32"
    by (simp add: of_char_of)
  then show ?thesis using True by (simp add: lower_char_def is_space_def Let_def)
qed

lemma list_all_space_lower: "list_all is_space (lower s) = list_all is_space s"
  by (simp add: lower_def list_all_iff is_space_lower_char)

lemma dropWhile_margin: "list_all P pre \<Longrightarrow> dropWhile P (pre @ x) = dropWhile P x"
  by (rule dropWhile_append2) (simp add: list_all_iff)

lemma strip_margin_left: "list_all is_space pre \<Longrightarrow> strip (pre @ x) = strip x"
  by (simp add: strip_def dropWhile_margin)

lemma strip_all_space:
  assumes "list_all is_space x"
  shows "strip x = []"
proof -
  have "\<forall>c\<in>set x. is_space c" using assms by (simp only: list_all_iff)
  then have d: "dropWhile is_space x = []" by (rule iffD2 [OF dropWhile_eq_Nil_conv])
  show ?thesis unfolding strip_def d by simp
qed

lemma strip_margin_right:
  assumes "list_all is_space post"
  shows "strip (x @ post) = strip x"
proof (cases "list_all is_space x")
  case True
  then have "list_all is_space (x @ post)" using assms by simp
  then show ?thesis using True by (simp only: strip_all_space)
next
  case False
  then obtain c where c: "c \<in> set x" "\<not> is_space c" by (auto simp: list_all_iff)
  then have "dropWhile is_space (x @ post) = dropWhile is_space x @ post"
    by (rule dropWhile_append1)
  moreover have "dropWhile is_space (rev post @ ys) = dropWhile is_space ys" for ys
    using assms by (intro dropWhile_margin) (simp add: list_all_iff)
  ultimately show ?thesis by (simp add: strip_def)
qed

lemma strip_lower_margins:
  assumes "list_all is_space pre" "list_all is_space post"
  shows "strip (lower (pre @ core @ post)) = strip (lower core)"
proof -
  have l: "lower (pre @ core @ post) = lower pre @ lower core @ lower post"
    by (simp add: lower_def)
  have "strip (lower pre @ (lower core @ lower post)) = strip (lower core @ lower post)"
    using assms(1) by (intro strip_margin_left) (simp only: list_all_space_lower)
  also have "\<dots> = strip (lower core)"
    using assms(2) by (intro strip_margin_right) (simp only: list_all_space_lower)
  finally show ?thesis by (simp only: l)
qed

lemma normalized_equal:
  assumes "same_up_to_case_and_margin q1 q2"
  shows "strip (lower q1) = strip (lower q2)"
proof -
  from assms obtain pre1 core1 post1 pre2 core2 post2 where
    q1: "q1 = pre1 @ core1 @ post1" and q2: "q2 = pre2 @ core2 @ post2"
    and sp: "list_all is_space (pre1 @ post1 @ pre2 @ post2)"
    and co: "lower core1 = lower core2"
    unfolding same_up_to_case_and_margin_def by blast
  from sp have s: "list_all is_space pre1" "list_all is_space post1"
    "list_all is_space pre2" "list_all is_space post2" by simp_all
  show ?thesis
    unfolding q1 q2 strip_lower_margins [OF s(1,2)] strip_lower_margins [OF s(3,4)] co ..
qed

lemma optimized_cache_key_normalised:
  assumes "same_up_to_case_and_margin q1 q2"
  shows "get_query_cache_key w q1 ct sid = get_query_cache_key w q2 ct sid"
  unfolding get_query_cache_key_def Let_def normalized_equal [OF assms] ..

lemma ex_lower_hi: "lower ''Hi'' = lower ''hi''"
  by code_simp

lemma ex_same_hi: "same_up_to_case_and_margin ''Hi'' ''hi''"
proof -
  have "''Hi'' = [] @ ''Hi'' @ [] \<and> ''hi'' = [] @ ''hi'' @ []
        \<and> list_all is_space ([] @ [] @ [] @ []) \<and> lower ''Hi'' = lower ''hi''"
    using ex_lower_hi by simp
  then show ?thesis unfolding same_up_to_case_and_margin_def by blast
qed

text \<open>
  Claim C9. The optimized service lower-cases and strips the question before hashing, so
  questions that differ only in letter case or in surrounding whitespace share a key
  (\<open>optimized_cache_key_normalised\<close>). The legacy service hashes the raw question:
  for \<open>Hi\<close> and \<open>hi\<close> with no filters the hashed strings are \<open>Hi__\<close> and
  \<open>hi__\<close>, and under a hash that tells them apart the two keys differ, while the
  optimized keys of the same two questions are equal.
\<close>

theorem legacy_cache_key_keeps_case:
  "same_up_to_case_and_margin ''Hi'' ''hi''
   \<and> legacy_key_string ''Hi'' None None = ''Hi__''
   \<and> legacy_key_string ''hi'' None None = ''hi__''
   \<and> legacy_get_query_cache_key example_world ''Hi'' None None
       \<noteq> legacy_get_query_cache_key example_world ''hi'' None None
   \<and> get_query_cache_key example_world ''Hi'' None None
       = get_query_cache_key example_world ''hi'' None None"
proof -
  have a: "legacy_key_string ''Hi'' None None = ''Hi__''"
    and b: "legacy_key_string ''hi'' None None = ''hi__''"
    by (simp_all add: legacy_key_string_def or_else_def)
  have c: "legacy_get_query_cache_key example_world ''Hi'' None None
       \<noteq> legacy_get_query_cache_key example_world ''hi'' None None"
    by (simp add: legacy_get_query_cache_key_def a b example_world_def)
  show ?thesis
    using ex_same_hi a b c optimized_cache_key_normalised [OF ex_same_hi] by simp
qed

lemma legacy_cache_key_iff:
  "(legacy_get_query_cache_key w q1 ct sid = legacy_get_query_cache_key w q2 ct sid)
   = (py_hash w (legacy_key_string q1 ct sid) = py_hash w (legacy_key_string q2 ct sid))"
  by (simp add: legacy_get_query_cache_key_def)

subsection \<open>The two tiers of the embedding cache\<close>

lemma get_cached_fast_hit:
  assumes "cache_get w st (get_embedding_cache_key w text) = Inr (Some (EmbeddingData v t m c))"
  shows "get_cached_embedding w st text = (Some v, st)"
  by (simp add: get_cached_embedding_def get_cached_embedding_body_def Let_def assms)

lemma fast_tier_lookup_SomeD:
  assumes "fast_tier_lookup w st text = Some v"
  shows "\<exists>t m c. cache_get w st (get_embedding_cache_key w text) = Inr (Some (EmbeddingData v t m c))"
  using assms
  by (auto simp: fast_tier_lookup_def split: sum.splits option.splits cache_value.splits)

lemma fast_tier_serves:
  assumes "fast_tier_lookup w st text = Some v"
  shows "get_cached_embedding w st text = (Some v, st)"
  using fast_tier_lookup_SomeD [OF assms] get_cached_fast_hit by blast

lemma get_cached_durable_hit:
  assumes g: "\<not> cache_get_fails w" and s: "\<not> cache_set_fails w"
    and f: "fast_tier_lookup w st text = None"
    and r: "find (\<lambda>row. text_hash row = md5 w text) (embedding_cache st) = Some row"
    and j: "ec_embedding row = JsonVector v"
    and d: "\<not> db_read_fails w"
  shows "get_cached_embedding w st text =
          (Some v, st\<lparr>cache := (cache st)(get_embedding_cache_key w text \<mapsto>
             (EmbeddingData v (text_content row) (model_name row) (ec_created_at row),
              now st + embedding_timeout))\<rparr>)"
proof -
  obtain x where x: "cache_get w st (get_embedding_cache_key w text) = Inr x"
    using g by (simp add: cache_get_def)
  have nx: "x \<noteq> Some (EmbeddingData v' t m c)" for v' t m c
    using f x by (auto simp: fast_tier_lookup_def)
  show ?thesis
    using nx
    by (cases x; (cases "the x")?)
       (simp_all add: get_cached_embedding_def get_cached_embedding_body_def Let_def x r j d s
          cache_set_def)
qed

lemma durable_tier_lookup_SomeD:
  assumes "durable_tier_lookup w st text = Some v"
  shows "\<not> db_read_fails w \<and>
         (\<exists>row. find (\<lambda>row. text_hash row = md5 w text) (embedding_cache st) = Some row
                \<and> ec_embedding row = JsonVector v)"
  using assms
  by (auto simp: durable_tier_lookup_def split: if_splits option.splits json_text.splits)

text \<open>
  Claim C10. When the fast tier has no entry for the text and the durable tier holds a
  parsable vector for it (and the fast tier accepts reads and writes), the lookup returns
  that vector and leaves it in the fast tier with the embedding timeout; the fast tier
  alone then answers, and so does every later lookup before the timeout on any state with
  that fast tier -- whatever the durable tier then holds.
\<close>

theorem durable_hit_fills_fast_tier:
  assumes g: "\<not> cache_get_fails w" and s: "\<not> cache_set_fails w"
    and f: "fast_tier_lookup w st text = None"
    and d: "durable_tier_lookup w st text = Some v"
  shows "\<exists>st1. get_cached_embedding w st text = (Some v, st1)
           \<and> (\<exists>t m c. cache st1 (get_embedding_cache_key w text)
                        = Some (EmbeddingData v t m c, now st + embedding_timeout))
           \<and> fast_tier_lookup w st1 text = Some v
           \<and> (\<forall>w2 st2. cache st2 = cache st1 \<and> now st2 < now st + embedding_timeout
                         \<and> md5 w2 = md5 w \<and> \<not> cache_get_fails w2
                  \<longrightarrow> get_cached_embedding w2 st2 text = (Some v, st2))"
proof -
  from durable_tier_lookup_SomeD [OF d] obtain row where
    db: "\<not> db_read_fails w"
    and r: "find (\<lambda>row. text_hash row = md5 w text) (embedding_cache st) = Some row"
    and j: "ec_embedding row = JsonVector v" by blast
  define entry where
    "entry = EmbeddingData v (text_content row) (model_name row) (ec_created_at row)"
  define st1 where
    "st1 = st\<lparr>cache := (cache st)(get_embedding_cache_key w text \<mapsto>
                           (entry, now st + embedding_timeout))\<rparr>"
  have run: "get_cached_embedding w st text = (Some v, st1)"
    unfolding st1_def entry_def by (rule get_cached_durable_hit [OF g s f r j db])
  have c1: "cache st1 (get_embedding_cache_key w text) = Some (entry, now st + embedding_timeout)"
    by (simp add: st1_def)
  have later: "fast_tier_lookup w2 st2 text = Some v"
    if "cache st2 = cache st1" "now st2 < now st + embedding_timeout" "md5 w2 = md5 w"
       "\<not> cache_get_fails w2" for w2 st2
    using that c1
    by (simp add: fast_tier_lookup_def cache_get_def get_embedding_cache_key_def entry_def)
  have n1: "now st1 < now st + embedding_timeout"
    by (simp add: st1_def embedding_timeout_def)
  have fast: "fast_tier_lookup w st1 text = Some v"
    by (rule later [OF refl n1 refl g])
  have all: "\<forall>w2 st2. cache st2 = cache st1 \<and> now st2 < now st + embedding_timeout
                         \<and> md5 w2 = md5 w \<and> \<not> cache_get_fails w2
                  \<longrightarrow> get_cached_embedding w2 st2 text = (Some v, st2)"
    using later fast_tier_serves by blast
  have "\<exists>t m c. cache st1 (get_embedding_cache_key w text)
                        = Some (EmbeddingData v t m c, now st + embedding_timeout)"
    using c1 unfolding entry_def by blast
  then show ?thesis using run fast all by blast
qed

lemma ex_durable_fast: "fast_tier_lookup example_world durable_state ''world'' = None"
  by (simp add: fast_tier_lookup_def cache_get_def example_world_def durable_state_def)

lemma ex_durable_hit: "durable_tier_lookup example_world durable_state ''world'' = Some [1, 0]"
  by (simp add: durable_tier_lookup_def example_world_def durable_state_def expired_row_def)

text \<open>
  The row of \<open>durable_state\<close>: the first lookup fills the fast tier, and a second
  lookup is answered with the durable tier emptied and unreadable.
\<close>

theorem durable_hit_fills_fast_tier_witness:
  "\<not> cache_get_fails example_world \<and> \<not> cache_set_fails example_world
   \<and> fast_tier_lookup example_world durable_state ''world'' = None
   \<and> durable_tier_lookup example_world durable_state ''world'' = Some [1, 0]
   \<and> (\<exists>st1. get_cached_embedding example_world durable_state ''world'' = (Some [1, 0], st1)
          \<and> fast_tier_lookup example_world st1 ''world'' = Some [1, 0]
          \<and> get_cached_embedding (example_world\<lparr>db_read_fails := True\<rparr>)
               (st1\<lparr>embedding_cache := []\<rparr>) ''world''
             = (Some [1, 0], st1\<lparr>embedding_cache := []\<rparr>))"
proof -
  have g: "\<not> cache_get_fails example_world" and s: "\<not> cache_set_fails example_world"
    by (simp_all add: example_world_def)
  from durable_hit_fills_fast_tier [OF g s ex_durable_fast ex_durable_hit]
  obtain st1 where
    run: "get_cached_embedding example_world durable_state ''world'' = (Some [1, 0], st1)"
    and fast: "fast_tier_lookup example_world st1 ''world'' = Some [1, 0]"
    and all: "\<forall>w2 st2. cache st2 = cache st1 \<and> now st2 < now durable_state + embedding_timeout
                         \<and> md5 w2 = md5 example_world \<and> \<not> cache_get_fails w2
                  \<longrightarrow> get_cached_embedding w2 st2 ''world'' = (Some [1, 0], st2)"
    by blast
  have n: "now st1 = 100"
    using run
    by (simp add: get_cached_embedding_def get_cached_embedding_body_def Let_def cache_get_def
        cache_set_def example_world_def durable_state_def expired_row_def
        get_embedding_cache_key_def)
       auto
  have "get_cached_embedding (example_world\<lparr>db_read_fails := True\<rparr>)
               (st1\<lparr>embedding_cache := []\<rparr>) ''world''
             = (Some [1, 0], st1\<lparr>embedding_cache := []\<rparr>)"
    using all [rule_format, of "st1\<lparr>embedding_cache := []\<rparr>" "example_world\<lparr>db_read_fails := True\<rparr>"]
    by (simp add: n durable_state_def embedding_timeout_def example_world_def)
  then show ?thesis using g s ex_durable_fast ex_durable_hit run fast by blast
qed

subsection \<open>Expiry\<close>





section \<open>The query pipeline under failure\<close>











subsection \<open>The pipeline in the concrete world\<close>














end
